theory Spec2Isabelle
  imports Main "HOL-Library.Product_Lexorder" "HOL-Library.Sublist"
begin

section \<open>Story resolution and synthesis (mediawords/tm/stories.py)\<close>

text \<open>
  A shallow embedding of \<^verbatim>\<open>mediawords/tm/stories.py\<close>. The rows the code handles as
  dictionaries are records, the database handle is a record of tables that every function
  receives and returns, and an assertion or an index out of range is an error value.

  A Python \<^verbatim>\<open>str\<close> is a \<open>string\<close>: one \<open>char\<close> stands for one character of the
  \<^verbatim>\<open>str\<close>, so \<open>length\<close> is \<^verbatim>\<open>len\<close> and \<open>take n\<close> is the slice \<^verbatim>\<open>[0:n]\<close>.
  Identifiers are Python integers, hence \<open>int\<close>.
\<close>

subsection \<open>Rows\<close>

type_synonym timestamp = string

text \<open>
  A story before it is stored has every field but \<open>stories_id\<close>; the row of table
  \<^verbatim>\<open>stories\<close> adds the identifier.
\<close>

record story_fields =
  url :: string
  guid :: string
  media_id :: int
  collect_date :: timestamp
  title :: string
  description :: string
  publish_date :: timestamp

record story = story_fields +
  stories_id :: int

text \<open>
  A row of table \<^verbatim>\<open>media\<close>. Its columns \<^verbatim>\<open>media_id\<close>, \<^verbatim>\<open>url\<close> and \<^verbatim>\<open>name\<close>
  carry the prefix \<open>m_\<close> here, since a story has columns of the same names.
\<close>

record medium =
  m_media_id :: int
  m_url :: string
  m_name :: string
  dup_media_id :: "int option"
  foreign_rss_links :: bool

record tag_set =
  tag_sets_id :: int
  ts_name :: string

record tag =
  tags_id :: int
  tag_name :: string
  tag_tag_sets_id :: int

record feed =
  feeds_id :: int
  f_media_id :: int
  f_url :: string
  f_name :: string
  feed_status :: string

record download =
  downloads_id :: int
  dl_feeds_id :: int
  dl_stories_id :: int
  dl_url :: string
  dl_host :: string
  dl_type :: string
  dl_sequence :: int
  dl_state :: string
  dl_path :: string
  dl_priority :: int
  dl_extracted :: string

subsection \<open>The store\<close>

text \<open>The statements the code sends through \<^verbatim>\<open>db.query\<close>, with their parameters.\<close>

datatype query =
    Q_story_sentences "int list"
  | Q_media "int list"
  | Q_ignore_redirects string
  | Q_story_match "string list"
  | Q_spider_feed int string string

text \<open>
  The tables the module reads and writes. Table \<^verbatim>\<open>story_sentences\<close> is the list of the
  \<^verbatim>\<open>stories_id\<close> column of its rows, \<^verbatim>\<open>topic_ignore_redirects\<close> the list of its
  \<^verbatim>\<open>url\<close> column, \<^verbatim>\<open>topic_seed_urls\<close> the list of its (url, stories_id) pairs and the
  two map tables lists of pairs: these are the only columns the code uses.

  \<open>query_log\<close> collects every statement run through \<^verbatim>\<open>db.query\<close>, in order.

  \<open>limit_choice\<close> is the store's answer where SQL leaves one open: of several groups
  with the same \<^verbatim>\<open>count(*)\<close>, \<^verbatim>\<open>order by count(*) desc limit 1\<close> may yield any, and
  \<open>limit_choice d gs\<close> is the position in \<open>gs\<close> of the one this store yields.
\<close>

record db =
  tbl_stories :: "story list"
  tbl_media :: "medium list"
  tbl_story_sentences :: "int list"
  tbl_topic_seed_urls :: "(string \<times> int) list"
  tbl_topic_ignore_redirects :: "string list"
  tbl_tag_sets :: "tag_set list"
  tbl_tags :: "tag list"
  tbl_stories_tags_map :: "(int \<times> int) list"
  tbl_feeds :: "feed list"
  tbl_feeds_stories_map :: "(int \<times> int) list"
  tbl_downloads :: "download list"
  limit_choice :: "int list \<Rightarrow> nat"
  query_log :: "query list"

datatype error = AssertionError | IndexError

definition log_query :: "query \<Rightarrow> db \<Rightarrow> db" where
  "log_query q d = d\<lparr>query_log := query_log d @ [q]\<rparr>"

subsection \<open>The story with the most sentences\<close>

definition sentence_count :: "db \<Rightarrow> int \<Rightarrow> nat" where
  "sentence_count d i = length (filter (\<lambda>j. j = i) (tbl_story_sentences d))"

text \<open>
  The inner select: the rows of \<^verbatim>\<open>story_sentences\<close> whose story is one of \<open>ids\<close>,
  grouped by story. \<open>top_sentence_groups\<close> are the groups that can come first under
  \<^verbatim>\<open>order by count(*) desc\<close>, and \<open>limit_1\<close> is the one the store yields.
\<close>

definition sentence_groups :: "db \<Rightarrow> int list \<Rightarrow> int list" where
  "sentence_groups d ids = remdups (filter (\<lambda>j. j \<in> set ids) (tbl_story_sentences d))"

definition top_sentence_groups :: "db \<Rightarrow> int list \<Rightarrow> int list" where
  "top_sentence_groups d ids =
     filter (\<lambda>g. \<forall>h \<in> set (sentence_groups d ids). sentence_count d h \<le> sentence_count d g)
       (sentence_groups d ids)"

definition limit_1 :: "db \<Rightarrow> int list \<Rightarrow> int option" where
  "limit_1 d gs = (if gs = [] then None else Some (gs ! (limit_choice d gs mod length gs)))"

text \<open>
  The whole statement of \<^verbatim>\<open>_get_story_with_most_sentences\<close>, read with \<^verbatim>\<open>.hash()\<close>:
  the first row of \<^verbatim>\<open>stories\<close> with the identifier the inner select yields, if any.
\<close>

definition query_story_sentences :: "db \<Rightarrow> int list \<Rightarrow> db \<times> story option" where
  "query_story_sentences d ids =
     (log_query (Q_story_sentences ids) d,
      case limit_1 d (top_sentence_groups d ids) of
        None \<Rightarrow> None
      | Some i \<Rightarrow> find (\<lambda>s. stories_id s = i) (tbl_stories d))"

text \<open>\<^verbatim>\<open>_get_story_with_most_sentences\<close> (an Isabelle name cannot start with an underscore).\<close>

definition get_story_with_most_sentences :: "db \<Rightarrow> story list \<Rightarrow> db \<times> (error + story)" where
  "get_story_with_most_sentences d stories =
     (case stories of
        [] \<Rightarrow> (d, Inl AssertionError)
      | [s] \<Rightarrow> (d, Inr s)
      | s # _ \<Rightarrow>
          (case query_story_sentences d (map stories_id stories) of
             (d', Some r) \<Rightarrow> (d', Inr r)
           | (d', None) \<Rightarrow> (d', Inr s)))"

subsection \<open>Collaborators outside the module\<close>

text \<open>
  Modelled from the spec: the result of the date guesser, whose class
  \<^verbatim>\<open>GuessDateResult\<close> (mediawords/tm/guess_date.py) is not part of the sources. The spec
  gives it as found or not found, a found result carrying the date and the method;
  the code reads it through \<^verbatim>\<open>found()\<close>, \<^verbatim>\<open>date()\<close> and \<^verbatim>\<open>guess_method()\<close>, the method
  being the descriptive string the code matches prefixes of.
\<close>

datatype GuessDateResult =
    Found (date: timestamp) (guess_method: string)
  | NotFound

fun found :: "GuessDateResult \<Rightarrow> bool" where
  "found (Found _ _) = True"
| "found NotFound = False"

text \<open>
  The functions the module calls and the sources do not contain
  (\<^verbatim>\<open>mediawords.util.url\<close>, \<^verbatim>\<open>mediawords.tm.media\<close>, \<^verbatim>\<open>mediawords.util.html\<close>,
  \<^verbatim>\<open>mediawords.tm.guess_date\<close>, \<^verbatim>\<open>mediawords.dbi.downloads\<close>) are parameters, collected
  in one record; those that take the database handle may change the store.
  \<open>word_char\<close> is the character class \<^verbatim>\<open>\w\<close> of the regular expression engine,
  \<open>now_collect\<close> and \<open>now_publish\<close> are the readings of \<^verbatim>\<open>datetime.datetime.now()\<close> at
  its two calls, the second already in ISO format.
\<close>

record env =
  normalize_url_lossy :: "string \<Rightarrow> string"
  get_url_distinctive_domain :: "string \<Rightarrow> string"
  get_url_host :: "string \<Rightarrow> string"
  generate_medium_url_and_name_from_url :: "string \<Rightarrow> string \<times> string"
  guess_medium :: "db \<Rightarrow> string \<Rightarrow> db \<times> medium"
  get_spidered_tag :: "db \<Rightarrow> db \<times> tag"
  html_title :: "string \<Rightarrow> string \<Rightarrow> nat \<Rightarrow> string"
  guess_date :: "string \<Rightarrow> string \<Rightarrow> GuessDateResult"
  store_content :: "db \<Rightarrow> download \<Rightarrow> string \<Rightarrow> db \<times> download"
  word_char :: "char \<Rightarrow> bool"
  now_collect :: timestamp
  now_publish :: timestamp

subsection \<open>The preferred story\<close>

text \<open>\<^verbatim>\<open>_url_domain_matches_medium\<close>.\<close>

definition url_domain_matches_medium :: "env \<Rightarrow> medium \<Rightarrow> string list \<Rightarrow> bool" where
  "url_domain_matches_medium e medium urls =
     (let medium_domain = get_url_distinctive_domain e (m_url medium);
          story_domains = map (get_url_distinctive_domain e) urls;
          matches = filter (\<lambda>dom. medium_domain = dom) story_domains
      in length matches > 0)"

text \<open>
  The statement of \<^verbatim>\<open>get_preferred_story\<close>: the media with one of the given identifiers,
  each with the column \<^verbatim>\<open>is_dup_target\<close>, true when some row of \<^verbatim>\<open>media\<close> has this
  medium as its \<^verbatim>\<open>dup_media_id\<close>.
\<close>

definition is_dup_target_col :: "db \<Rightarrow> medium \<Rightarrow> bool" where
  "is_dup_target_col d m = (\<exists>x \<in> set (tbl_media d). dup_media_id x = Some (m_media_id m))"

definition query_media :: "db \<Rightarrow> int list \<Rightarrow> db \<times> (medium \<times> bool) list" where
  "query_media d ids =
     (log_query (Q_media ids) d,
      map (\<lambda>m. (m, is_dup_target_col d m))
        (filter (\<lambda>m. m_media_id m \<in> set ids) (tbl_media d)))"

text \<open>
  A medium after the loop of \<^verbatim>\<open>get_preferred_story\<close>: the row with the four keys the
  loop sets. Python takes \<^verbatim>\<open>None\<close> and \<^verbatim>\<open>0\<close> as false in
  \<^verbatim>\<open>1 if medium['dup_media_id'] else 0\<close>.
\<close>

record ranked_medium =
  row :: medium
  is_dup_target :: nat
  is_not_dup_source :: nat
  matches_domain :: nat
  rm_stories :: "story list"

definition rank_medium :: "env \<Rightarrow> string list \<Rightarrow> story list \<Rightarrow> medium \<times> bool \<Rightarrow> ranked_medium" where
  "rank_medium e story_urls stories mb =
     (case mb of (medium, dup_target) \<Rightarrow>
        \<lparr> row = medium,
          is_dup_target = (if dup_target then 0 else 1),
          is_not_dup_source =
            (case dup_media_id medium of None \<Rightarrow> 0 | Some i \<Rightarrow> if i = 0 then 0 else 1),
          matches_domain = (if url_domain_matches_medium e medium story_urls then 0 else 1),
          rm_stories = filter (\<lambda>s. media_id s = m_media_id medium) stories \<rparr>)"

text \<open>The key of \<^verbatim>\<open>sorted\<close>: the tuple \<^verbatim>\<open>operator.itemgetter\<close> builds, compared lexicographically.\<close>

definition sort_item :: "ranked_medium \<Rightarrow> nat \<times> nat \<times> nat \<times> int" where
  "sort_item m = (is_dup_target m, is_not_dup_source m, matches_domain m, m_media_id (row m))"

definition sorted_media :: "env \<Rightarrow> db \<Rightarrow> story list \<Rightarrow> ranked_medium list" where
  "sorted_media e d stories =
     sort_key sort_item
       (map (rank_medium e (map url stories) stories)
          (snd (query_media d (map media_id stories))))"

definition get_preferred_story :: "env \<Rightarrow> db \<Rightarrow> story list \<Rightarrow> db \<times> (error + story)" where
  "get_preferred_story e d stories =
     (case stories of
        [] \<Rightarrow> (d, Inl AssertionError)
      | [s] \<Rightarrow> (d, Inr s)
      | _ \<Rightarrow>
          (let d1 = fst (query_media d (map media_id stories))
           in case sorted_media e d stories of
                [] \<Rightarrow> (d1, Inl IndexError)
              | m # _ \<Rightarrow> get_story_with_most_sentences d1 (rm_stories m)))"

subsection \<open>Redirects to ignore\<close>

definition MAX_URL_LENGTH :: nat where
  "MAX_URL_LENGTH = 1024"

definition MAX_TITLE_LENGTH :: nat where
  "MAX_TITLE_LENGTH = 1024"

definition SPIDER_FEED_NAME :: string where
  "SPIDER_FEED_NAME = ''Spider Feed''"

definition ignore_redirect :: "env \<Rightarrow> db \<Rightarrow> string \<Rightarrow> string option \<Rightarrow> db \<times> bool" where
  "ignore_redirect e d url0 redirect_url =
     (case redirect_url of
        None \<Rightarrow> (d, False)
      | Some r \<Rightarrow>
          if url0 = r then (d, False)
          else
            (let medium_url = fst (generate_medium_url_and_name_from_url e r);
                 u = normalize_url_lossy e medium_url
             in (log_query (Q_ignore_redirects u) d,
                 u \<in> set (tbl_topic_ignore_redirects d))))"

subsection \<open>Matching a url against the stories of the store\<close>

text \<open>
  \<^verbatim>\<open>get_story_match\<close> in three parts. \<open>effective_redirect\<close> is its variable \<^verbatim>\<open>ru\<close>:
  the empty string it is set to first, replaced only when the redirect is not ignored.
\<close>

definition effective_redirect :: "env \<Rightarrow> db \<Rightarrow> string \<Rightarrow> string option \<Rightarrow> db \<times> string" where
  "effective_redirect e d url0 redirect_url =
     (let u = take MAX_URL_LENGTH url0
      in case ignore_redirect e d url0 redirect_url of
           (d1, ignored) \<Rightarrow>
             (d1, if \<not> ignored
                  then (case redirect_url of
                          Some r \<Rightarrow> take MAX_URL_LENGTH r
                        | None \<Rightarrow> u)
                  else []))"

text \<open>
  \<^verbatim>\<open>list(set((u, ru, nu, nru)))\<close>: the four strings without repetition. Python fixes no
  order for the list; the statement only asks whether a string is in it.
\<close>

definition match_urls :: "env \<Rightarrow> string \<Rightarrow> string \<Rightarrow> string list" where
  "match_urls e u ru =
     (let nu = normalize_url_lossy e u;
          nru = normalize_url_lossy e ru
      in remdups [u, ru, nu, nru])"

text \<open>
  The statement of \<^verbatim>\<open>get_story_match\<close>: the stories of media without
  \<^verbatim>\<open>foreign_rss_links\<close> whose url or guid is one of \<open>urls\<close>, united with those
  that a seed url among \<open>urls\<close> points to. SQL fixes no order for the rows; here they
  come in the order of the table.
\<close>

definition in_plain_medium :: "db \<Rightarrow> story \<Rightarrow> bool" where
  "in_plain_medium d s =
     (\<exists>m \<in> set (tbl_media d). m_media_id m = media_id s \<and> \<not> foreign_rss_links m)"

definition query_story_match :: "db \<Rightarrow> string list \<Rightarrow> db \<times> story list" where
  "query_story_match d urls =
     (log_query (Q_story_match urls) d,
      remdups
        (filter (\<lambda>s. (url s \<in> set urls \<or> guid s \<in> set urls) \<and> in_plain_medium d s)
           (tbl_stories d)
         @ filter (\<lambda>s. (\<exists>csu \<in> set (tbl_topic_seed_urls d).
                           snd csu = stories_id s \<and> fst csu \<in> set urls)
                        \<and> in_plain_medium d s)
             (tbl_stories d)))"

text \<open>
  The function is declared to return \<^verbatim>\<open>typing.Optional[dict]\<close>, so its value is a
  \<open>story option\<close>; what it returns is what \<^verbatim>\<open>get_preferred_story\<close> returned.
\<close>

definition get_story_match ::
  "env \<Rightarrow> db \<Rightarrow> string \<Rightarrow> string option \<Rightarrow> db \<times> (error + story option)" where
  "get_story_match e d url0 redirect_url =
     (let u = take MAX_URL_LENGTH url0
      in case effective_redirect e d url0 redirect_url of
           (d1, ru) \<Rightarrow>
             (let urls = match_urls e u ru
              in case query_story_match d1 urls of
                   (d2, stories) \<Rightarrow>
                     (case get_preferred_story e d2 stories of
                        (d3, Inl err) \<Rightarrow> (d3, Inl err)
                      | (d3, Inr story) \<Rightarrow> (d3, Inr (Some story)))))"

subsection \<open>Writing to the store\<close>

text \<open>
  Modelled from the spec: \<^verbatim>\<open>db.create\<close> and \<^verbatim>\<open>db.find_or_create\<close> of the database
  handler (\<^verbatim>\<open>mediawords.db.DatabaseHandler\<close>), which is not part of the sources. The spec
  gives \<^verbatim>\<open>create(table, fields) -> record\<close> and
  \<^verbatim>\<open>find_or_create(table, unique_fields) -> record\<close>, the latter returning the existing
  row when there is one. A created row is the given fields with a new identifier, here
  one more than the largest in the table, appended to the table.
\<close>

definition next_id :: "int list \<Rightarrow> int" where
  "next_id ids = fold max ids 0 + 1"

definition create_story :: "db \<Rightarrow> story_fields \<Rightarrow> db \<times> story" where
  "create_story d f =
     (let s = \<lparr> url = url f, guid = guid f, media_id = media_id f,
                 collect_date = collect_date f, title = title f,
                 description = description f, publish_date = publish_date f,
                 stories_id = next_id (map stories_id (tbl_stories d)) \<rparr>
      in (d\<lparr>tbl_stories := tbl_stories d @ [s]\<rparr>, s))"

definition create_stories_tags_map :: "db \<Rightarrow> int \<Rightarrow> int \<Rightarrow> db" where
  "create_stories_tags_map d sid tid =
     d\<lparr>tbl_stories_tags_map := tbl_stories_tags_map d @ [(sid, tid)]\<rparr>"

definition create_feeds_stories_map :: "db \<Rightarrow> int \<Rightarrow> int \<Rightarrow> db" where
  "create_feeds_stories_map d sid fid =
     d\<lparr>tbl_feeds_stories_map := tbl_feeds_stories_map d @ [(sid, fid)]\<rparr>"

definition find_or_create_tag_set :: "db \<Rightarrow> string \<Rightarrow> db \<times> tag_set" where
  "find_or_create_tag_set d name =
     (case find (\<lambda>ts. ts_name ts = name) (tbl_tag_sets d) of
        Some ts \<Rightarrow> (d, ts)
      | None \<Rightarrow>
          (let ts = \<lparr> tag_sets_id = next_id (map tag_sets_id (tbl_tag_sets d)),
                       ts_name = name \<rparr>
           in (d\<lparr>tbl_tag_sets := tbl_tag_sets d @ [ts]\<rparr>, ts)))"

definition find_or_create_tag :: "db \<Rightarrow> string \<Rightarrow> int \<Rightarrow> db \<times> tag" where
  "find_or_create_tag d name tsid =
     (case find (\<lambda>t. tag_name t = name \<and> tag_tag_sets_id t = tsid) (tbl_tags d) of
        Some t \<Rightarrow> (d, t)
      | None \<Rightarrow>
          (let t = \<lparr> tags_id = next_id (map tags_id (tbl_tags d)),
                      tag_name = name, tag_tag_sets_id = tsid \<rparr>
           in (d\<lparr>tbl_tags := tbl_tags d @ [t]\<rparr>, t)))"

definition create_feed :: "db \<Rightarrow> int \<Rightarrow> string \<Rightarrow> string \<Rightarrow> string \<Rightarrow> db \<times> feed" where
  "create_feed d mid u name status =
     (let f = \<lparr> feeds_id = next_id (map feeds_id (tbl_feeds d)),
                 f_media_id = mid, f_url = u, f_name = name, feed_status = status \<rparr>
      in (d\<lparr>tbl_feeds := tbl_feeds d @ [f]\<rparr>, f))"

subsection \<open>The download of a new story\<close>

definition create_download_for_new_story :: "env \<Rightarrow> db \<Rightarrow> story \<Rightarrow> feed \<Rightarrow> db \<times> download" where
  "create_download_for_new_story e d story0 feed0 =
     (let dl = \<lparr> downloads_id = next_id (map downloads_id (tbl_downloads d)),
                  dl_feeds_id = feeds_id feed0,
                  dl_stories_id = stories_id story0,
                  dl_url = url story0,
                  dl_host = get_url_host e (url story0),
                  dl_type = ''content'',
                  dl_sequence = 1,
                  dl_state = ''success'',
                  dl_path = ''content:pending'',
                  dl_priority = 1,
                  dl_extracted = ''f'' \<rparr>
      in (d\<lparr>tbl_downloads := tbl_downloads d @ [dl]\<rparr>, dl))"

subsection \<open>The tag for the way the date was guessed\<close>

text \<open>
  The \<^verbatim>\<open>re.search\<close> of \<^verbatim>\<open>assign_date_guess_tag\<close>, whose pattern is an escaped less-than
  sign and a group of one or more word characters: it finds the leftmost less-than
  sign that a word character follows, group 1 being the longest run of word characters
  after it, and is \<open>None\<close> when there is none.
\<close>

fun search_html_tag :: "(char \<Rightarrow> bool) \<Rightarrow> string \<Rightarrow> string option" where
  "search_html_tag w [] = None"
| "search_html_tag w (c # cs) =
     (if c = CHR ''<'' \<and> takeWhile w cs \<noteq> [] then Some (takeWhile w cs)
      else search_html_tag w cs)"

text \<open>
  The first part of \<^verbatim>\<open>assign_date_guess_tag\<close>: the names \<^verbatim>\<open>tag_set\<close> and \<^verbatim>\<open>tag\<close> it
  chooses, \<^verbatim>\<open>startswith\<close> being \<open>prefix\<close>.
\<close>

definition date_guess_tag_names ::
  "env \<Rightarrow> GuessDateResult \<Rightarrow> timestamp option \<Rightarrow> string \<times> string" where
  "date_guess_tag_names e date_guess0 fallback_date =
     (if found date_guess0 then
        (let gm = guess_method date_guess0
         in (''date_guess_method'',
             if prefix ''Extracted from url'' gm then ''guess_by_url''
             else if prefix ''Extracted from tag'' gm then
               (let html_tag = (case search_html_tag (word_char e) gm of
                                  Some g \<Rightarrow> g
                                | None \<Rightarrow> ''unknown'')
                in ''guess_by_tag_'' @ html_tag)
             else ''guess_by_unknown''))
      else if fallback_date \<noteq> None then (''date_guess_method'', ''fallback_date'')
      else (''date_invalid'', ''date_invalid''))"

definition assign_date_guess_tag ::
  "env \<Rightarrow> db \<Rightarrow> story \<Rightarrow> GuessDateResult \<Rightarrow> timestamp option \<Rightarrow> db" where
  "assign_date_guess_tag e d story0 date_guess0 fallback_date =
     (case date_guess_tag_names e date_guess0 fallback_date of
        (tag_set0, tag0) \<Rightarrow>
          (case find_or_create_tag_set d tag_set0 of
             (d1, ts) \<Rightarrow>
               (case find_or_create_tag d1 tag0 (tag_sets_id ts) of
                  (d2, t) \<Rightarrow> create_stories_tags_map d2 (stories_id story0) (tags_id t))))"

subsection \<open>A new story\<close>

definition query_spider_feed :: "db \<Rightarrow> medium \<Rightarrow> db \<times> feed option" where
  "query_spider_feed d medium0 =
     (log_query (Q_spider_feed (m_media_id medium0) (m_url medium0) SPIDER_FEED_NAME) d,
      find (\<lambda>f. f_media_id f = m_media_id medium0 \<and> f_url f = m_url medium0
                 \<and> f_name f = SPIDER_FEED_NAME)
        (tbl_feeds d))"

definition get_spider_feed :: "db \<Rightarrow> medium \<Rightarrow> db \<times> feed" where
  "get_spider_feed d medium0 =
     (case query_spider_feed d medium0 of
        (d1, Some f) \<Rightarrow> (d1, f)
      | (d1, None) \<Rightarrow>
          create_feed d1 (m_media_id medium0) (m_url medium0) SPIDER_FEED_NAME ''inactive'')"

text \<open>\<^verbatim>\<open>re.sub('\x00', '', s)\<close>.\<close>

definition strip_null :: "string \<Rightarrow> string" where
  "strip_null s = filter (\<lambda>c. c \<noteq> CHR 0x00) s"

text \<open>
  \<^verbatim>\<open>add_new_story\<close>. The dictionary \<^verbatim>\<open>story\<close> is built field by field in the code and
  in one step here; the date guesser and the title extractor receive the truncated url,
  before the null characters are removed, as in the code.
\<close>

definition add_new_story ::
  "env \<Rightarrow> db \<Rightarrow> string \<Rightarrow> string \<Rightarrow> timestamp option \<Rightarrow> db \<times> story" where
  "add_new_story e d url0 content fallback_date =
     (let url1 = take MAX_URL_LENGTH url0
      in case guess_medium e d url1 of (d1, medium0) \<Rightarrow>
         case get_spider_feed d1 medium0 of (d2, feed0) \<Rightarrow>
         case get_spidered_tag e d2 of (d3, spidered_tag) \<Rightarrow>
         (let title0 = html_title e content url1 MAX_TITLE_LENGTH;
              date_guess0 = guess_date e url1 content;
              publish_date0 =
                (case (if found date_guess0 then Some (date date_guess0) else fallback_date) of
                   Some p \<Rightarrow> p
                 | None \<Rightarrow> now_publish e);
              story0 = \<lparr> url = strip_null url1,
                         guid = strip_null url1,
                         media_id = m_media_id medium0,
                         collect_date = now_collect e,
                         title = strip_null title0,
                         description = [],
                         publish_date = publish_date0 \<rparr>
          in case create_story d3 story0 of (d4, story1) \<Rightarrow>
             (let d5 = create_stories_tags_map d4 (stories_id story1) (tags_id spidered_tag);
                  d6 = assign_date_guess_tag e d5 story1 date_guess0 fallback_date;
                  d7 = create_feeds_stories_map d6 (stories_id story1) (feeds_id feed0)
              in case create_download_for_new_story e d7 story1 feed0 of (d8, download0) \<Rightarrow>
                 case store_content e d8 download0 content of (d9, download1) \<Rightarrow>
                   (d9, story1))))"

subsection \<open>Notions the properties are stated with\<close>

text \<open>
  The candidates are rows of the store: \<^verbatim>\<open>stories_id\<close> and \<^verbatim>\<open>media_id\<close> are the primary
  keys of their tables, every candidate is a row of \<^verbatim>\<open>stories\<close>, and the medium a
  candidate refers to exists (the foreign key of \<^verbatim>\<open>stories\<close>).
\<close>

definition candidates_of_store :: "db \<Rightarrow> story list \<Rightarrow> bool" where
  "candidates_of_store d stories \<longleftrightarrow>
     distinct (map stories_id (tbl_stories d)) \<and>
     distinct (map m_media_id (tbl_media d)) \<and>
     set stories \<subseteq> set (tbl_stories d) \<and>
     (\<forall>s \<in> set stories. \<exists>m \<in> set (tbl_media d). m_media_id m = media_id s)"

text \<open>The stories of the medium that sorts first, in the order of the candidates.\<close>

definition top_stories :: "env \<Rightarrow> db \<Rightarrow> story list \<Rightarrow> story list" where
  "top_stories e d stories = (case sorted_media e d stories of [] \<Rightarrow> [] | m # _ \<Rightarrow> rm_stories m)"

text \<open>
  What \<^verbatim>\<open>assign_date_guess_tag\<close> is to achieve, between the store \<open>d\<close> before and the
  store \<open>d'\<close> after: \<open>d'\<close> has a tag set of the given name and in it a tag of the given
  name, and \<^verbatim>\<open>stories_tags_map\<close> has gained one row, which links the story to that tag.
\<close>

definition tag_attached :: "db \<Rightarrow> db \<Rightarrow> story \<Rightarrow> string \<Rightarrow> string \<Rightarrow> bool" where
  "tag_attached d d' s tsn tn \<longleftrightarrow>
     (\<exists>ts \<in> set (tbl_tag_sets d'). \<exists>t \<in> set (tbl_tags d').
        ts_name ts = tsn \<and> tag_name t = tn \<and> tag_tag_sets_id t = tag_sets_id ts \<and>
        tbl_stories_tags_map d' = tbl_stories_tags_map d @ [(stories_id s, tags_id t)])"

text \<open>
  The rank of a medium among the media of the candidates, by the criteria of the
  docstring of \<^verbatim>\<open>get_preferred_story\<close>, read off the tables: whether some row of
  \<^verbatim>\<open>media\<close> has this medium as its \<^verbatim>\<open>dup_media_id\<close>, whether the medium is without a
  \<^verbatim>\<open>dup_media_id\<close> (one that is 0 counts as none, as Python takes it), whether the
  distinctive domain of its url is that of the url of some candidate, and its
  identifier. A smaller rank is a better one.
\<close>

definition source_rank :: "env \<Rightarrow> db \<Rightarrow> story list \<Rightarrow> medium \<Rightarrow> nat \<times> nat \<times> nat \<times> int" where
  "source_rank e d stories m =
     (if \<exists>x \<in> set (tbl_media d). dup_media_id x = Some (m_media_id m) then 0 else 1,
      if dup_media_id m = None \<or> dup_media_id m = Some 0 then 0 else 1,
      if \<exists>s \<in> set stories.
           get_url_distinctive_domain e (url s) = get_url_distinctive_domain e (m_url m)
      then 0 else 1,
      m_media_id m)"

text \<open>
  The collaborators that receive the database handle leave table \<^verbatim>\<open>stories\<close> as it is.
\<close>

definition keeps_stories :: "env \<Rightarrow> bool" where
  "keeps_stories e \<longleftrightarrow>
     (\<forall>d u. tbl_stories (fst (guess_medium e d u)) = tbl_stories d) \<and>
     (\<forall>d. tbl_stories (fst (get_spidered_tag e d)) = tbl_stories d) \<and>
     (\<forall>d dl content. tbl_stories (fst (store_content e d dl content)) = tbl_stories d)"

subsection \<open>A small store, for the examples\<close>

text \<open>
  Collaborators that do as little as possible: urls are written without a scheme and
  the domain of a url is what precedes its first slash, normalization changes nothing,
  the date guesser finds a date by the url in any content that is not empty.
\<close>

definition ex_domain :: "string \<Rightarrow> string" where
  "ex_domain u = takeWhile (\<lambda>c. c \<noteq> CHR ''/'') u"

definition ex_env :: env where
  "ex_env = \<lparr> normalize_url_lossy = (\<lambda>u. u),
      get_url_distinctive_domain = ex_domain,
      get_url_host = ex_domain,
      generate_medium_url_and_name_from_url = (\<lambda>u. (ex_domain u, ex_domain u)),
      guess_medium = (\<lambda>d u. (d, \<lparr> m_media_id = 1, m_url = ex_domain u, m_name = ex_domain u,
                                   dup_media_id = None, foreign_rss_links = False \<rparr>)),
      get_spidered_tag = (\<lambda>d. (d, \<lparr> tags_id = 1, tag_name = ''spidered'', tag_tag_sets_id = 1 \<rparr>)),
      html_title = (\<lambda>content u n. take n content),
      guess_date = (\<lambda>u content. if content = [] then NotFound
                                  else Found ''2019-05-04'' ''Extracted from url''),
      store_content = (\<lambda>d dl content. (d, dl)),
      word_char = (\<lambda>c. c \<in> set ''abcdefghijklmnopqrstuvwxyz0123456789_''),
      now_collect = ''2026-01-01 00:00:00'',
      now_publish = ''2026-01-01T00:00:00'' \<rparr>"

definition ex_story :: "int \<Rightarrow> string \<Rightarrow> int \<Rightarrow> story" where
  "ex_story i u m = \<lparr> url = u, guid = u, media_id = m, collect_date = ''2025-01-01'',
      title = ''t'', description = [], publish_date = ''2025-01-01'', stories_id = i \<rparr>"

definition ex_medium :: "int \<Rightarrow> string \<Rightarrow> int option \<Rightarrow> medium" where
  "ex_medium i u dup = \<lparr> m_media_id = i, m_url = u, m_name = u, dup_media_id = dup,
      foreign_rss_links = False \<rparr>"

definition ex_db :: db where
  "ex_db = \<lparr> tbl_stories =
        [ex_story 10 ''mirror.example/a'' 1, ex_story 11 ''canon.example/a'' 2,
         ex_story 12 ''canon.example/b'' 2, ex_story 13 ''news.example/x'' 4,
         ex_story 14 ''news.example/x'' 5],
      tbl_media =
        [ex_medium 1 ''mirror.example'' None, ex_medium 2 ''canon.example'' None,
         ex_medium 3 ''old.example'' (Some 2), ex_medium 4 ''aggregator.example'' None,
         ex_medium 5 ''news.example'' None],
      tbl_story_sentences = [11, 12, 12],
      tbl_topic_seed_urls = [],
      tbl_topic_ignore_redirects = [''parked.example''],
      tbl_tag_sets = [\<lparr> tag_sets_id = 1, ts_name = ''spidered'' \<rparr>],
      tbl_tags = [\<lparr> tags_id = 1, tag_name = ''spidered'', tag_tag_sets_id = 1 \<rparr>],
      tbl_stories_tags_map = [],
      tbl_feeds = [], tbl_feeds_stories_map = [], tbl_downloads = [],
      limit_choice = (\<lambda>gs. 0),
      query_log = [] \<rparr>"

definition ex_candidates :: "story list" where
  "ex_candidates =
     [ex_story 10 ''mirror.example/a'' 1, ex_story 11 ''canon.example/a'' 2,
      ex_story 12 ''canon.example/b'' 2]"

definition ex_news_candidates :: "story list" where
  "ex_news_candidates = [ex_story 13 ''news.example/x'' 4, ex_story 14 ''news.example/x'' 5]"

definition tie_candidates :: "story list" where
  "tie_candidates = [ex_story 11 ''canon.example/a'' 2, ex_story 12 ''canon.example/b'' 2]"

text \<open>
  The example store with one sentence for each of the stories 11 and 12, and a
  \<^verbatim>\<open>limit 1\<close> that yields the second of two groups; and with no sentence at all.
\<close>

definition tie_db :: db where
  "tie_db = ex_db\<lparr>tbl_story_sentences := [11, 12], limit_choice := (\<lambda>gs. 1)\<rparr>"

definition quiet_db :: db where
  "quiet_db = ex_db\<lparr>tbl_story_sentences := []\<rparr>"

section \<open>Properties\<close>

subsection \<open>Auxiliary facts\<close>

lemma log_query_tables [simp]:
  "tbl_stories (log_query q d) = tbl_stories d"
  "tbl_media (log_query q d) = tbl_media d"
  "tbl_story_sentences (log_query q d) = tbl_story_sentences d"
  "limit_choice (log_query q d) = limit_choice d"
  by (simp_all add: log_query_def)

lemma sentence_count_log [simp]: "sentence_count (log_query q d) i = sentence_count d i"
  by (simp add: sentence_count_def)

lemma sort_key_head_least:
  assumes "sort_key f xs = y # ys"
  shows "y \<in> set xs \<and> (\<forall>x \<in> set xs. f y \<le> f x)"
proof -
  have s: "set (y # ys) = set xs" using assms set_sort[of f xs] by simp
  have "sorted (map f (y # ys))" using assms sorted_sort_key[of f xs] by simp
  then have "\<forall>x \<in> set (y # ys). f y \<le> f x" by auto
  with s show ?thesis by auto
qed

lemma sentence_groups_set:
  "set (sentence_groups d ids) = {i \<in> set ids. 0 < sentence_count d i}"
  by (auto simp: sentence_groups_def sentence_count_def filter_empty_conv)

lemma list_has_greatest:
  fixes f :: "'a \<Rightarrow> nat"
  shows "xs \<noteq> [] \<Longrightarrow> \<exists>x \<in> set xs. \<forall>y \<in> set xs. f y \<le> f x"
proof (induction xs)
  case Nil
  then show ?case by simp
next
  case (Cons a xs)
  show ?case
  proof (cases "xs = []")
    case True
    then show ?thesis by simp
  next
    case False
    then obtain x where x: "x \<in> set xs" "\<forall>y \<in> set xs. f y \<le> f x"
      using Cons.IH by blast
    show ?thesis
    proof (cases "f a \<le> f x")
      case True
      with x show ?thesis by auto
    next
      case False
      then have "\<forall>y \<in> set xs. f y \<le> f a" using x(2) by auto
      then show ?thesis by auto
    qed
  qed
qed

lemma top_sentence_groups_empty:
  "top_sentence_groups d ids = [] \<longleftrightarrow> (\<forall>i \<in> set ids. sentence_count d i = 0)"
proof
  assume e: "top_sentence_groups d ids = []"
  have "sentence_groups d ids = []"
  proof (rule ccontr)
    assume "sentence_groups d ids \<noteq> []"
    then obtain x where "x \<in> set (sentence_groups d ids)"
      "\<forall>y \<in> set (sentence_groups d ids). sentence_count d y \<le> sentence_count d x"
      using list_has_greatest[of "sentence_groups d ids" "sentence_count d"] by blast
    then have "x \<in> set (top_sentence_groups d ids)"
      by (simp add: top_sentence_groups_def)
    with e show False by simp
  qed
  then have "{i \<in> set ids. 0 < sentence_count d i} = {}"
    using sentence_groups_set[of d ids] by simp
  then show "\<forall>i \<in> set ids. sentence_count d i = 0" by auto
next
  assume "\<forall>i \<in> set ids. sentence_count d i = 0"
  then have "set (sentence_groups d ids) = {}"
    by (simp add: sentence_groups_set)
  then show "top_sentence_groups d ids = []"
    by (simp add: top_sentence_groups_def)
qed

lemma limit_1_mem: "limit_1 d gs = Some i \<Longrightarrow> i \<in> set gs"
  by (auto simp: limit_1_def split: if_splits)

lemma limit_1_None: "limit_1 d gs = None \<longleftrightarrow> gs = []"
  by (simp add: limit_1_def)

lemma top_sentence_groups_max:
  assumes "i \<in> set (top_sentence_groups d ids)" "j \<in> set ids"
  shows "sentence_count d j \<le> sentence_count d i"
proof (cases "0 < sentence_count d j")
  case True
  with assms(2) have "j \<in> set (sentence_groups d ids)"
    by (simp add: sentence_groups_set)
  with assms(1) show ?thesis
    by (simp add: top_sentence_groups_def)
next
  case False
  then show ?thesis by simp
qed

lemma top_sentence_groups_subset:
  "i \<in> set (top_sentence_groups d ids) \<Longrightarrow> i \<in> set ids"
  using sentence_groups_set[of d ids] by (auto simp: top_sentence_groups_def)

lemma find_by_distinct_key:
  assumes "distinct (map f xs)" "x \<in> set xs"
  shows "find (\<lambda>y. f y = f x) xs = Some x"
  using assms
proof (induction xs)
  case Nil
  then show ?case by simp
next
  case (Cons a xs)
  then show ?case by (cases "a = x") (auto simp: image_iff)
qed

lemma most_sentences_result:
  assumes dist: "distinct (map stories_id (tbl_stories d))"
    and sub: "set ss \<subseteq> set (tbl_stories d)"
    and ne: "ss \<noteq> []"
  shows "\<exists>s. snd (get_story_with_most_sentences d ss) = Inr s \<and> s \<in> set ss \<and>
           (\<forall>t \<in> set ss. sentence_count d (stories_id t) \<le> sentence_count d (stories_id s)) \<and>
           ((\<forall>t \<in> set ss. sentence_count d (stories_id t) = 0) \<longrightarrow> s = hd ss)"
proof (cases ss)
  case Nil
  with ne show ?thesis by simp
next
  case (Cons a rest)
  show ?thesis
  proof (cases rest)
    case Nil
    with Cons show ?thesis by (simp add: get_story_with_most_sentences_def)
  next
    case (Cons b rest')
    let ?ids = "map stories_id ss"
    show ?thesis
    proof (cases "limit_1 d (top_sentence_groups d ?ids)")
      case None
      then have z: "\<forall>i \<in> set ?ids. sentence_count d i = 0"
        by (simp add: limit_1_None top_sentence_groups_empty)
      have "snd (get_story_with_most_sentences d ss) = Inr a"
        using None Cons \<open>ss = a # rest\<close>
        by (simp add: get_story_with_most_sentences_def query_story_sentences_def)
      with z \<open>ss = a # rest\<close> show ?thesis by auto
    next
      case (Some i)
      then have top: "i \<in> set (top_sentence_groups d ?ids)"
        by (rule limit_1_mem)
      then have "i \<in> set ?ids" by (rule top_sentence_groups_subset)
      then obtain t where t: "t \<in> set ss" "stories_id t = i" by auto
      with sub have "t \<in> set (tbl_stories d)" by auto
      with dist have "find (\<lambda>y. stories_id y = stories_id t) (tbl_stories d) = Some t"
        by (rule find_by_distinct_key)
      with t have f: "find (\<lambda>y. stories_id y = i) (tbl_stories d) = Some t" by simp
      have r: "snd (get_story_with_most_sentences d ss) = Inr t"
        using Some f Cons \<open>ss = a # rest\<close>
        by (simp add: get_story_with_most_sentences_def query_story_sentences_def)
      have mx: "\<forall>u \<in> set ss. sentence_count d (stories_id u) \<le> sentence_count d (stories_id t)"
        using top_sentence_groups_max[OF top] t(2) by auto
      have "top_sentence_groups d ?ids \<noteq> []" using top by auto
      then have "\<not> (\<forall>u \<in> set ss. sentence_count d (stories_id u) = 0)"
        by (simp add: top_sentence_groups_empty)
      with r t(1) mx show ?thesis by blast
    qed
  qed
qed

lemma sorted_media_mem:
  assumes "m \<in> set (sorted_media e d stories)"
  shows "row m \<in> set (tbl_media d) \<and>
         m_media_id (row m) \<in> media_id ` set stories \<and>
         rm_stories m = filter (\<lambda>s. media_id s = m_media_id (row m)) stories \<and>
         is_dup_target m = (if is_dup_target_col d (row m) then 0 else 1) \<and>
         is_not_dup_source m =
           (case dup_media_id (row m) of None \<Rightarrow> 0 | Some i \<Rightarrow> if i = 0 then 0 else 1) \<and>
         matches_domain m =
           (if url_domain_matches_medium e (row m) (map url stories) then 0 else 1)"
  using assms by (auto simp: sorted_media_def query_media_def rank_medium_def)

lemma sorted_media_has:
  assumes "r \<in> set (tbl_media d)" "m_media_id r \<in> media_id ` set stories"
  shows "\<exists>m \<in> set (sorted_media e d stories). row m = r"
  using assms by (force simp: sorted_media_def query_media_def rank_medium_def image_iff)

lemma preferred_story_result:
  assumes c: "candidates_of_store d stories" and ne: "stories \<noteq> []"
  shows "\<exists>m ms s. sorted_media e d stories = m # ms \<and>
           snd (get_preferred_story e d stories) = Inr s \<and> s \<in> set (rm_stories m) \<and>
           (\<forall>t \<in> set (rm_stories m).
              sentence_count d (stories_id t) \<le> sentence_count d (stories_id s)) \<and>
           ((\<forall>t \<in> set (rm_stories m). sentence_count d (stories_id t) = 0)
              \<longrightarrow> s = hd (rm_stories m))"
proof -
  from ne obtain s0 where s0: "s0 \<in> set stories" by (cases stories) auto
  with c obtain r where r: "r \<in> set (tbl_media d)" "m_media_id r = media_id s0"
    by (auto simp: candidates_of_store_def)
  with s0 have "\<exists>m \<in> set (sorted_media e d stories). row m = r"
    by (intro sorted_media_has) auto
  then obtain m ms where sm: "sorted_media e d stories = m # ms"
    by (cases "sorted_media e d stories") auto
  then have "m \<in> set (sorted_media e d stories)" by simp
  note mm = sorted_media_mem[OF this]
  let ?top = "rm_stories m"
  from mm have top_ne: "?top \<noteq> []"
    by (auto simp: filter_empty_conv)
  from mm have top_sub: "set ?top \<subseteq> set stories" by auto
  show ?thesis
  proof (cases stories)
    case Nil
    with ne show ?thesis by simp
  next
    case (Cons a rest)
    show ?thesis
    proof (cases rest)
      case Nil
      with Cons top_sub top_ne have "?top = [a]"
        using mm by (auto split: if_splits)
      with sm Cons Nil show ?thesis
        by (simp add: get_preferred_story_def)
    next
      case (Cons b rest')
      let ?d1 = "fst (query_media d (map media_id stories))"
      have d1: "?d1 = log_query (Q_media (map media_id stories)) d"
        by (simp add: query_media_def)
      have g: "get_preferred_story e d stories = get_story_with_most_sentences ?d1 ?top"
        using sm Cons \<open>stories = a # rest\<close>
        by (simp add: get_preferred_story_def)
      have "distinct (map stories_id (tbl_stories ?d1))"
        using c by (simp add: d1 candidates_of_store_def)
      moreover have "set ?top \<subseteq> set (tbl_stories ?d1)"
        using c top_sub by (auto simp: d1 candidates_of_store_def)
      ultimately obtain s where
        "snd (get_story_with_most_sentences ?d1 ?top) = Inr s" "s \<in> set ?top"
        "\<forall>t \<in> set ?top. sentence_count ?d1 (stories_id t) \<le> sentence_count ?d1 (stories_id s)"
        "(\<forall>t \<in> set ?top. sentence_count ?d1 (stories_id t) = 0) \<longrightarrow> s = hd ?top"
        using most_sentences_result[OF _ _ top_ne, of ?d1] by blast
      with g sm show ?thesis by (simp add: d1)
    qed
  qed
qed

lemma sorted_media_head_least:
  assumes "sorted_media e d stories = m # ms" "m' \<in> set (sorted_media e d stories)"
  shows "sort_item m \<le> sort_item m'"
proof -
  let ?xs = "map (rank_medium e (map url stories) stories)
               (snd (query_media d (map media_id stories)))"
  have "sort_key sort_item ?xs = m # ms" using assms(1) by (simp add: sorted_media_def)
  from sort_key_head_least[OF this]
  have "\<forall>x \<in> set ?xs. sort_item m \<le> sort_item x" by simp
  moreover have "m' \<in> set ?xs" using assms(2) by (simp add: sorted_media_def)
  ultimately show ?thesis by blast
qed

text \<open>
  The rows that \<^verbatim>\<open>get_story_match\<close> passes to \<^verbatim>\<open>get_preferred_story\<close> are candidates in
  the sense of \<open>candidates_of_store\<close> in every store whose identifiers are keys: the
  statement joins each story with its medium.
\<close>

lemma candidates_of_store_log [simp]:
  "candidates_of_store (log_query q d) ss = candidates_of_store d ss"
  by (simp add: candidates_of_store_def)

lemma query_story_match_candidates:
  assumes "distinct (map stories_id (tbl_stories d))" "distinct (map m_media_id (tbl_media d))"
  shows "candidates_of_store (fst (query_story_match d urls)) (snd (query_story_match d urls))"
proof -
  have "candidates_of_store d (snd (query_story_match d urls))"
    using assms
    by (auto simp: candidates_of_store_def query_story_match_def in_plain_medium_def)
  then show ?thesis by (simp add: query_story_match_def)
qed

subsection \<open>The preferred story\<close>

text \<open>
  C6. On a candidate list of one story \<^verbatim>\<open>get_preferred_story\<close> returns that story as it
  is, and the store it leaves is the store it received: nothing was added to the log of
  statements, so neither the ranking query nor the sentence count query ran.
\<close>

theorem get_preferred_story_singleton:
  "get_preferred_story e d [s] = (d, Inr s)"
  by (simp add: get_preferred_story_def)

text \<open>
  C3. When the candidates come from exactly two media \<open>a\<close> and \<open>b\<close>, of which \<open>a\<close> is
  the \<^verbatim>\<open>dup_media_id\<close> of some medium and \<open>b\<close> is not, \<^verbatim>\<open>get_preferred_story\<close>
  returns a candidate of medium \<open>a\<close>. Nothing is assumed about the other keys or about
  which of \<open>a\<close> and \<open>b\<close> is the smaller number, so the two media may agree on every other
  key and \<open>a\<close> may be the larger, as in the example after the theorem: there the two
  media have the same keys \<^verbatim>\<open>is_not_dup_source\<close> and \<^verbatim>\<open>matches_domain\<close>, and the one that
  is a \<^verbatim>\<open>dup_media_id\<close> has the larger identifier.
\<close>

theorem preferred_story_dup_target:
  assumes c: "candidates_of_store d stories"
    and two: "media_id ` set stories = {a, b}"
    and ma: "ma \<in> set (tbl_media d)" "m_media_id ma = a" "is_dup_target_col d ma"
    and mb: "mb \<in> set (tbl_media d)" "m_media_id mb = b" "\<not> is_dup_target_col d mb"
  shows "\<exists>s. snd (get_preferred_story e d stories) = Inr s \<and> s \<in> set stories \<and> media_id s = a"
proof -
  from two have ne: "stories \<noteq> []" by auto
  from preferred_story_result[OF c ne, of e] obtain m ms s where
    sm: "sorted_media e d stories = m # ms" and
    r: "snd (get_preferred_story e d stories) = Inr s" and
    s: "s \<in> set (rm_stories m)" by blast
  from sm have "m \<in> set (sorted_media e d stories)" by simp
  note mm = sorted_media_mem[OF this]
  from ma two obtain m' where m': "m' \<in> set (sorted_media e d stories)" "row m' = ma"
    using sorted_media_has[of ma d stories e] by auto
  have "is_dup_target m' = 0"
    using sorted_media_mem[OF m'(1)] m'(2) ma(3) by simp
  moreover have "sort_item m \<le> sort_item m'"
    using sm m'(1) by (rule sorted_media_head_least)
  ultimately have "is_dup_target m = 0"
    by (auto simp: sort_item_def less_eq_prod_def)
  with mm have t: "is_dup_target_col d (row m)" by (auto split: if_splits)
  have "m_media_id (row m) \<noteq> b"
  proof
    assume "m_media_id (row m) = b"
    with t mb(2) have "is_dup_target_col d mb" by (simp add: is_dup_target_col_def)
    with mb(3) show False by simp
  qed
  with mm two have "m_media_id (row m) = a" by auto
  with s mm have "s \<in> set stories \<and> media_id s = a" by auto
  with r show ?thesis by blast
qed

lemma ex_sorted_media:
  "sorted_media ex_env ex_db ex_candidates =
     [\<lparr> row = ex_medium 2 ''canon.example'' None, is_dup_target = 0, is_not_dup_source = 0,
        matches_domain = 0,
        rm_stories = [ex_story 11 ''canon.example/a'' 2, ex_story 12 ''canon.example/b'' 2] \<rparr>,
      \<lparr> row = ex_medium 1 ''mirror.example'' None, is_dup_target = 1,
        is_not_dup_source = 0, matches_domain = 0,
        rm_stories = [ex_story 10 ''mirror.example/a'' 1] \<rparr>]"
  by (simp add: sorted_media_def query_media_def rank_medium_def sort_item_def
      is_dup_target_col_def url_domain_matches_medium_def ex_db_def ex_candidates_def
      ex_story_def ex_medium_def ex_env_def ex_domain_def less_eq_prod_def)

lemma ex_candidates_of_store: "candidates_of_store ex_db ex_candidates"
  by (simp add: candidates_of_store_def ex_db_def ex_candidates_def ex_story_def ex_medium_def)

theorem preferred_story_dup_target_witness:
  "candidates_of_store ex_db ex_candidates \<and>
   media_id ` set ex_candidates = {2, 1} \<and>
   ex_medium 2 ''canon.example'' None \<in> set (tbl_media ex_db) \<and>
   is_dup_target_col ex_db (ex_medium 2 ''canon.example'' None) \<and>
   ex_medium 1 ''mirror.example'' None \<in> set (tbl_media ex_db) \<and>
   \<not> is_dup_target_col ex_db (ex_medium 1 ''mirror.example'' None) \<and>
   map (\<lambda>m. (m_media_id (row m), is_dup_target m, is_not_dup_source m, matches_domain m))
     (sorted_media ex_env ex_db ex_candidates) = [(2, 0, 0, 0), (1, 1, 0, 0)] \<and>
   (\<exists>s. snd (get_preferred_story ex_env ex_db ex_candidates) = Inr s \<and>
        s \<in> set ex_candidates \<and> media_id s = 2)"
proof -
  have h2: "media_id ` set ex_candidates = {2, 1}"
    by (auto simp: ex_candidates_def ex_story_def)
  have h3: "ex_medium 2 ''canon.example'' None \<in> set (tbl_media ex_db)"
    by (simp add: ex_db_def)
  have h4: "m_media_id (ex_medium 2 ''canon.example'' None) = 2"
    by (simp add: ex_medium_def)
  have h5: "is_dup_target_col ex_db (ex_medium 2 ''canon.example'' None)"
    by (simp add: is_dup_target_col_def ex_db_def ex_medium_def)
  have h6: "ex_medium 1 ''mirror.example'' None \<in> set (tbl_media ex_db)"
    by (simp add: ex_db_def)
  have h7: "m_media_id (ex_medium 1 ''mirror.example'' None) = 1"
    by (simp add: ex_medium_def)
  have h8: "\<not> is_dup_target_col ex_db (ex_medium 1 ''mirror.example'' None)"
    by (simp add: is_dup_target_col_def ex_db_def ex_medium_def)
  have h9: "map (\<lambda>m. (m_media_id (row m), is_dup_target m, is_not_dup_source m,
                       matches_domain m))
     (sorted_media ex_env ex_db ex_candidates) = [(2, 0, 0, 0), (1, 1, 0, 0)]"
    by (simp add: ex_sorted_media ex_medium_def)
  from preferred_story_dup_target[OF ex_candidates_of_store h2 h3 h4 h5 h6 h7 h8, of ex_env]
  show ?thesis using ex_candidates_of_store h2 h3 h5 h6 h8 h9 by blast
qed

text \<open>
  C4. When the media of the candidates all have the same keys \<^verbatim>\<open>is_dup_target\<close> and
  \<^verbatim>\<open>is_not_dup_source\<close>, and the distinctive domain of the url of one of them is that
  of the url of some candidate, \<^verbatim>\<open>get_preferred_story\<close> returns a candidate whose medium
  has such a domain: a medium whose domain matches goes before every medium whose
  domain does not, whatever their identifiers.
\<close>

theorem preferred_story_domain_match:
  assumes c: "candidates_of_store d stories"
    and tie: "\<forall>m \<in> set (sorted_media e d stories). \<forall>m' \<in> set (sorted_media e d stories).
                is_dup_target m = is_dup_target m' \<and> is_not_dup_source m = is_not_dup_source m'"
    and mm: "mm \<in> set (tbl_media d)" "m_media_id mm \<in> media_id ` set stories"
      "url_domain_matches_medium e mm (map url stories)"
  shows "\<exists>s r. snd (get_preferred_story e d stories) = Inr s \<and> s \<in> set stories \<and>
           r \<in> set (tbl_media d) \<and> m_media_id r = media_id s \<and>
           url_domain_matches_medium e r (map url stories)"
proof -
  from mm(2) have ne: "stories \<noteq> []" by auto
  from preferred_story_result[OF c ne, of e] obtain m ms s where
    sm: "sorted_media e d stories = m # ms" and
    r: "snd (get_preferred_story e d stories) = Inr s" and
    s: "s \<in> set (rm_stories m)" by blast
  from sm have min: "m \<in> set (sorted_media e d stories)" by simp
  note fm = sorted_media_mem[OF min]
  from mm obtain m' where m': "m' \<in> set (sorted_media e d stories)" "row m' = mm"
    using sorted_media_has[of mm d stories e] by auto
  have z: "matches_domain m' = 0"
    using sorted_media_mem[OF m'(1)] m'(2) mm(3) by simp
  have le: "sort_item m \<le> sort_item m'"
    using sm m'(1) by (rule sorted_media_head_least)
  from tie min m'(1)
  have eq: "is_dup_target m = is_dup_target m' \<and> is_not_dup_source m = is_not_dup_source m'"
    by blast
  from le have "matches_domain m \<le> matches_domain m'"
    using eq by (auto simp: sort_item_def less_eq_prod_def)
  with z have "matches_domain m = 0" by simp
  with fm have "url_domain_matches_medium e (row m) (map url stories)"
    by (auto split: if_splits)
  moreover from s fm have "s \<in> set stories" "m_media_id (row m) = media_id s" by auto
  moreover from fm have "row m \<in> set (tbl_media d)" by simp
  ultimately show ?thesis using r by blast
qed

lemma ex_news_candidates_of_store: "candidates_of_store ex_db ex_news_candidates"
  by (simp add: candidates_of_store_def ex_db_def ex_news_candidates_def ex_story_def
      ex_medium_def)

lemma ex_news_sorted_media:
  "sorted_media ex_env ex_db ex_news_candidates =
     [\<lparr> row = ex_medium 5 ''news.example'' None, is_dup_target = 1, is_not_dup_source = 0,
        matches_domain = 0, rm_stories = [ex_story 14 ''news.example/x'' 5] \<rparr>,
      \<lparr> row = ex_medium 4 ''aggregator.example'' None, is_dup_target = 1,
        is_not_dup_source = 0, matches_domain = 1,
        rm_stories = [ex_story 13 ''news.example/x'' 4] \<rparr>]"
  by (simp add: sorted_media_def query_media_def rank_medium_def sort_item_def
      is_dup_target_col_def url_domain_matches_medium_def ex_db_def ex_news_candidates_def
      ex_story_def ex_medium_def ex_env_def ex_domain_def less_eq_prod_def)

theorem preferred_story_domain_match_witness:
  "candidates_of_store ex_db ex_news_candidates \<and>
   map (\<lambda>m. (m_media_id (row m), is_dup_target m, is_not_dup_source m))
     (sorted_media ex_env ex_db ex_news_candidates) = [(5, 1, 0), (4, 1, 0)] \<and>
   ex_medium 5 ''news.example'' None \<in> set (tbl_media ex_db) \<and>
   url_domain_matches_medium ex_env (ex_medium 5 ''news.example'' None)
     (map url ex_news_candidates) \<and>
   \<not> url_domain_matches_medium ex_env (ex_medium 4 ''aggregator.example'' None)
     (map url ex_news_candidates) \<and>
   (\<exists>s r. snd (get_preferred_story ex_env ex_db ex_news_candidates) = Inr s \<and>
      s \<in> set ex_news_candidates \<and> r \<in> set (tbl_media ex_db) \<and>
      m_media_id r = media_id s \<and>
      url_domain_matches_medium ex_env r (map url ex_news_candidates))"
proof -
  have h2: "\<forall>m \<in> set (sorted_media ex_env ex_db ex_news_candidates).
      \<forall>m' \<in> set (sorted_media ex_env ex_db ex_news_candidates).
        is_dup_target m = is_dup_target m' \<and> is_not_dup_source m = is_not_dup_source m'"
    by (simp add: ex_news_sorted_media)
  have h3: "ex_medium 5 ''news.example'' None \<in> set (tbl_media ex_db)"
    by (simp add: ex_db_def)
  have h4: "m_media_id (ex_medium 5 ''news.example'' None) \<in> media_id ` set ex_news_candidates"
    by (simp add: ex_news_candidates_def ex_story_def ex_medium_def)
  have h5: "url_domain_matches_medium ex_env (ex_medium 5 ''news.example'' None)
     (map url ex_news_candidates)"
    by (simp add: url_domain_matches_medium_def ex_news_candidates_def ex_story_def
        ex_medium_def ex_env_def ex_domain_def)
  have h6: "\<not> url_domain_matches_medium ex_env (ex_medium 4 ''aggregator.example'' None)
     (map url ex_news_candidates)"
    by (simp add: url_domain_matches_medium_def ex_news_candidates_def ex_story_def
        ex_medium_def ex_env_def ex_domain_def)
  have h7: "map (\<lambda>m. (m_media_id (row m), is_dup_target m, is_not_dup_source m))
     (sorted_media ex_env ex_db ex_news_candidates) = [(5, 1, 0), (4, 1, 0)]"
    by (simp add: ex_news_sorted_media ex_medium_def)
  from preferred_story_domain_match[OF ex_news_candidates_of_store h2 h3 h4 h5]
  show ?thesis using ex_news_candidates_of_store h7 h3 h5 h6 by blast
qed

lemma query_story_sentences_log [simp]:
  "snd (query_story_sentences (log_query q d) ids) = snd (query_story_sentences d ids)"
  by (simp add: query_story_sentences_def limit_1_def top_sentence_groups_def
      sentence_groups_def)

lemma most_sentences_snd:
  "snd (get_story_with_most_sentences d (a # b # rest)) =
     Inr (case snd (query_story_sentences d (map stories_id (a # b # rest))) of
            Some r \<Rightarrow> r
          | None \<Rightarrow> a)"
  by (simp add: get_story_with_most_sentences_def split: prod.splits option.splits)

lemma most_sentences_lookup_none:
  assumes "ss \<noteq> []" "snd (query_story_sentences d (map stories_id ss)) = None"
  shows "snd (get_story_with_most_sentences d ss) = Inr (hd ss)"
  using assms
  by (cases ss; cases "tl ss")
     (auto simp: get_story_with_most_sentences_def split: prod.splits list.splits)

lemma preferred_story_lookup_none:
  assumes c: "candidates_of_store d stories" and ne: "stories \<noteq> []"
    and n: "snd (query_story_sentences d (map stories_id (top_stories e d stories))) = None"
  shows "snd (get_preferred_story e d stories) = Inr (hd (top_stories e d stories))"
proof -
  from preferred_story_result[OF c ne, of e] obtain m ms s where
    sm: "sorted_media e d stories = m # ms" and
    r: "snd (get_preferred_story e d stories) = Inr s" and
    s: "s \<in> set (rm_stories m)" by blast
  have top: "top_stories e d stories = rm_stories m" using sm by (simp add: top_stories_def)
  from s have tne: "rm_stories m \<noteq> []" by auto
  show ?thesis
  proof (cases stories)
    case Nil
    with ne show ?thesis by simp
  next
    case (Cons a rest)
    show ?thesis
    proof (cases rest)
      case Nil
      from sm have "m \<in> set (sorted_media e d stories)" by simp
      from sorted_media_mem[OF this] Cons Nil tne have "rm_stories m = [a]"
        by (auto split: if_splits)
      with Cons Nil top show ?thesis by (simp add: get_preferred_story_def)
    next
      case (Cons b rest')
      let ?d1 = "fst (query_media d (map media_id stories))"
      have d1: "?d1 = log_query (Q_media (map media_id stories)) d"
        by (simp add: query_media_def)
      have g: "get_preferred_story e d stories = get_story_with_most_sentences ?d1 (rm_stories m)"
        using sm Cons \<open>stories = a # rest\<close>
        by (simp add: get_preferred_story_def)
      have "snd (query_story_sentences ?d1 (map stories_id (rm_stories m))) = None"
        using n top by (simp add: d1)
      from most_sentences_lookup_none[OF tne this] g top show ?thesis by simp
    qed
  qed
qed

text \<open>
  C5, as the code has it. For candidates that are rows of the store,
  \<^verbatim>\<open>get_preferred_story\<close> returns a story of the medium that sorts first, and no story
  of that medium has more sentences than the one returned; when the sentence count
  statement yields no row, the story returned is the first of that medium in the order
  of the candidates. When several stories of the medium have the largest count, the
  one returned is the one the store's \<^verbatim>\<open>limit 1\<close> yields, which the next theorem shows
  need not be the first.
\<close>

theorem preferred_story_most_sentences:
  assumes c: "candidates_of_store d stories" and ne: "stories \<noteq> []"
  shows "\<exists>s. snd (get_preferred_story e d stories) = Inr s \<and>
           s \<in> set (top_stories e d stories) \<and>
           (\<forall>t \<in> set (top_stories e d stories).
              sentence_count d (stories_id t) \<le> sentence_count d (stories_id s)) \<and>
           (snd (query_story_sentences d (map stories_id (top_stories e d stories))) = None
              \<longrightarrow> s = hd (top_stories e d stories))"
proof -
  from preferred_story_result[OF c ne, of e] obtain m ms s where
    sm: "sorted_media e d stories = m # ms" and
    r: "snd (get_preferred_story e d stories) = Inr s" and
    s: "s \<in> set (rm_stories m)" and
    mx: "\<forall>t \<in> set (rm_stories m).
           sentence_count d (stories_id t) \<le> sentence_count d (stories_id s)" by blast
  have top: "top_stories e d stories = rm_stories m" using sm by (simp add: top_stories_def)
  have "snd (query_story_sentences d (map stories_id (top_stories e d stories))) = None
          \<longrightarrow> s = hd (top_stories e d stories)"
    using preferred_story_lookup_none[OF c ne, of e] r by simp
  with r s mx top show ?thesis by simp
qed

lemma sort_item_source_rank:
  assumes "m \<in> set (sorted_media e d stories)"
  shows "sort_item m = source_rank e d stories (row m)"
proof -
  note mm = sorted_media_mem[OF assms]
  have a: "is_dup_target m =
      (if \<exists>x \<in> set (tbl_media d). dup_media_id x = Some (m_media_id (row m)) then 0 else 1)"
    using mm by (simp add: is_dup_target_col_def)
  have b: "is_not_dup_source m =
      (if dup_media_id (row m) = None \<or> dup_media_id (row m) = Some 0 then 0 else 1)"
    using mm by (auto split: option.splits)
  have "url_domain_matches_medium e (row m) (map url stories) \<longleftrightarrow>
      (\<exists>s \<in> set stories.
         get_url_distinctive_domain e (url s) = get_url_distinctive_domain e (m_url (row m)))"
    by (force simp: url_domain_matches_medium_def Let_def filter_empty_conv image_iff)
  with mm have c: "matches_domain m =
      (if \<exists>s \<in> set stories.
           get_url_distinctive_domain e (url s) = get_url_distinctive_domain e (m_url (row m))
       then 0 else 1)"
    by simp
  show ?thesis by (simp add: sort_item_def source_rank_def a b c)
qed

text \<open>
  C10. For a list of candidates that is not empty and holds rows of the store,
  \<^verbatim>\<open>get_preferred_story\<close> returns one of the candidates, so its \<^verbatim>\<open>stories_id\<close> is that
  of a candidate, and the medium of its \<^verbatim>\<open>media_id\<close> is the top-ranked one: every other
  medium of a candidate has a strictly larger rank, by the criteria written out in
  \<open>source_rank\<close>. That medium is also the head of the sorted list of the code.
\<close>

theorem preferred_story_from_candidates:
  assumes c: "candidates_of_store d stories" and ne: "stories \<noteq> []"
  shows "\<exists>s r m ms. snd (get_preferred_story e d stories) = Inr s \<and>
           s \<in> set stories \<and> stories_id s \<in> stories_id ` set stories \<and>
           sorted_media e d stories = m # ms \<and> media_id s = m_media_id (row m) \<and>
           r \<in> set (tbl_media d) \<and> m_media_id r = media_id s \<and>
           (\<forall>r' \<in> set (tbl_media d).
              m_media_id r' \<in> media_id ` set stories \<and> r' \<noteq> r \<longrightarrow>
                source_rank e d stories r < source_rank e d stories r')"
proof -
  from preferred_story_result[OF c ne, of e] obtain m ms s where
    sm: "sorted_media e d stories = m # ms" and
    r: "snd (get_preferred_story e d stories) = Inr s" and
    s: "s \<in> set (rm_stories m)" by blast
  from sm have min: "m \<in> set (sorted_media e d stories)" by simp
  note mm = sorted_media_mem[OF min]
  from mm s have s1: "s \<in> set stories" "media_id s = m_media_id (row m)" by auto
  have least: "source_rank e d stories (row m) < source_rank e d stories r'"
    if r': "r' \<in> set (tbl_media d)" "m_media_id r' \<in> media_id ` set stories" "r' \<noteq> row m"
    for r'
  proof -
    from r'(1,2) obtain m' where m': "m' \<in> set (sorted_media e d stories)" "row m' = r'"
      using sorted_media_has[of r' d stories e] by auto
    have "sort_item m \<le> sort_item m'" using sm m'(1) by (rule sorted_media_head_least)
    then have le: "source_rank e d stories (row m) \<le> source_rank e d stories r'"
      using sort_item_source_rank[OF min] sort_item_source_rank[OF m'(1)] m'(2) by simp
    have "distinct (map m_media_id (tbl_media d))"
      using c by (simp add: candidates_of_store_def)
    with r'(1,3) mm have "m_media_id (row m) \<noteq> m_media_id r'"
      by (auto simp: distinct_map inj_on_def)
    then have "source_rank e d stories (row m) \<noteq> source_rank e d stories r'"
      by (simp add: source_rank_def)
    with le show ?thesis by simp
  qed
  from mm have "row m \<in> set (tbl_media d)" by simp
  with r s1 sm least show ?thesis by (intro exI[of _ s] exI[of _ "row m"] exI[of _ m] exI[of _ ms]) auto
qed

lemma tie_sorted_media:
  assumes "tbl_media d = tbl_media ex_db"
  shows "sorted_media ex_env d tie_candidates =
     [\<lparr> row = ex_medium 2 ''canon.example'' None, is_dup_target = 0, is_not_dup_source = 0,
        matches_domain = 0,
        rm_stories = [ex_story 11 ''canon.example/a'' 2, ex_story 12 ''canon.example/b'' 2] \<rparr>]"
  by (simp add: sorted_media_def query_media_def rank_medium_def sort_item_def
      is_dup_target_col_def url_domain_matches_medium_def assms ex_db_def tie_candidates_def
      ex_story_def ex_medium_def ex_env_def ex_domain_def less_eq_prod_def)

lemma tie_candidates_of_store:
  assumes "tbl_stories d = tbl_stories ex_db" "tbl_media d = tbl_media ex_db"
  shows "candidates_of_store d tie_candidates"
  by (simp add: candidates_of_store_def assms ex_db_def tie_candidates_def ex_story_def
      ex_medium_def)

lemma tie_top_stories:
  assumes "tbl_media d = tbl_media ex_db"
  shows "top_stories ex_env d tie_candidates = tie_candidates"
  using tie_sorted_media[OF assms]
  by (simp add: top_stories_def) (simp add: tie_candidates_def)

text \<open>
  C5 as stated fails: in \<open>tie_db\<close> the two candidates belong to the same medium and
  have one sentence each, the store yields the group of story 12 under \<^verbatim>\<open>limit 1\<close>,
  and \<^verbatim>\<open>get_preferred_story\<close> returns story 12, the second in the order of the
  candidates, not the first.
\<close>

theorem preferred_story_tie_counterexample:
  "candidates_of_store tie_db tie_candidates \<and>
   top_stories ex_env tie_db tie_candidates = tie_candidates \<and>
   sentence_count tie_db 11 = 1 \<and> sentence_count tie_db 12 = 1 \<and>
   hd tie_candidates = ex_story 11 ''canon.example/a'' 2 \<and>
   snd (get_preferred_story ex_env tie_db tie_candidates) = Inr (ex_story 12 ''canon.example/b'' 2) \<and>
   ex_story 12 ''canon.example/b'' 2 \<noteq> ex_story 11 ''canon.example/a'' 2"
proof -
  have tm: "tbl_media tie_db = tbl_media ex_db" and tst: "tbl_stories tie_db = tbl_stories ex_db"
    by (simp_all add: tie_db_def)
  have a: "candidates_of_store tie_db tie_candidates"
    using tst tm by (rule tie_candidates_of_store)
  note sm' = tie_sorted_media[OF tm, unfolded tie_candidates_def]
  have b: "top_stories ex_env tie_db tie_candidates = tie_candidates"
    using tm by (rule tie_top_stories)
  have c: "sentence_count tie_db 11 = 1" "sentence_count tie_db 12 = 1"
    by (simp_all add: sentence_count_def tie_db_def)
  have e: "hd tie_candidates = ex_story 11 ''canon.example/a'' 2"
    by (simp add: tie_candidates_def)
  have g: "top_sentence_groups tie_db [11, 12] = [11, 12]"
    by (simp add: top_sentence_groups_def sentence_groups_def sentence_count_def tie_db_def)
  have l: "limit_1 tie_db [11, 12] = Some 12"
    by (simp add: limit_1_def tie_db_def)
  have "find (\<lambda>s. stories_id s = 12) (tbl_stories tie_db)
          = Some (ex_story 12 ''canon.example/b'' 2)"
    by (simp add: tie_db_def ex_db_def ex_story_def)
  then have q: "snd (query_story_sentences tie_db [11, 12])
               = Some (ex_story 12 ''canon.example/b'' 2)"
    by (simp add: query_story_sentences_def g l)
  have ids: "map stories_id [ex_story 11 ''canon.example/a'' 2, ex_story 12 ''canon.example/b'' 2]
               = [11, 12]"
    by (simp add: ex_story_def)
  have f: "snd (get_preferred_story ex_env tie_db tie_candidates)
             = Inr (ex_story 12 ''canon.example/b'' 2)"
    by (simp add: tie_candidates_def get_preferred_story_def sm' query_media_def
        most_sentences_snd ids q del: list.map)
  have h: "ex_story 12 ''canon.example/b'' 2 \<noteq> ex_story 11 ''canon.example/a'' 2"
    by (simp add: ex_story_def)
  from a b c e f h show ?thesis by simp
qed

theorem preferred_story_most_sentences_witness:
  "candidates_of_store ex_db ex_candidates \<and> ex_candidates \<noteq> [] \<and>
   (\<exists>s. snd (get_preferred_story ex_env ex_db ex_candidates) = Inr s \<and>
      s \<in> set (top_stories ex_env ex_db ex_candidates) \<and>
      (\<forall>t \<in> set (top_stories ex_env ex_db ex_candidates).
         sentence_count ex_db (stories_id t) \<le> sentence_count ex_db (stories_id s)) \<and>
      (snd (query_story_sentences ex_db
              (map stories_id (top_stories ex_env ex_db ex_candidates))) = None
         \<longrightarrow> s = hd (top_stories ex_env ex_db ex_candidates))) \<and>
   candidates_of_store quiet_db tie_candidates \<and> tie_candidates \<noteq> [] \<and>
   snd (query_story_sentences quiet_db
          (map stories_id (top_stories ex_env quiet_db tie_candidates))) = None \<and>
   snd (get_preferred_story ex_env quiet_db tie_candidates)
     = Inr (hd (top_stories ex_env quiet_db tie_candidates))"
proof -
  have n1: "ex_candidates \<noteq> []" by (simp add: ex_candidates_def)
  have n2: "tie_candidates \<noteq> []" by (simp add: tie_candidates_def)
  have tm: "tbl_media quiet_db = tbl_media ex_db"
    and tst: "tbl_stories quiet_db = tbl_stories ex_db"
    by (simp_all add: quiet_db_def)
  have c2: "candidates_of_store quiet_db tie_candidates"
    using tst tm by (rule tie_candidates_of_store)
  have "top_sentence_groups quiet_db ids = []" for ids
    by (simp add: top_sentence_groups_def sentence_groups_def quiet_db_def)
  then have q: "snd (query_story_sentences quiet_db ids) = None" for ids
    by (simp add: query_story_sentences_def limit_1_def)
  from preferred_story_most_sentences[OF c2 n2, of ex_env] q
  have "snd (get_preferred_story ex_env quiet_db tie_candidates)
          = Inr (hd (top_stories ex_env quiet_db tie_candidates))"
    by auto
  with preferred_story_most_sentences[OF ex_candidates_of_store n1, of ex_env]
    ex_candidates_of_store n1 c2 n2 q
  show ?thesis by blast
qed

theorem preferred_story_from_candidates_witness:
  "candidates_of_store ex_db ex_candidates \<and> ex_candidates \<noteq> [] \<and>
   source_rank ex_env ex_db ex_candidates (ex_medium 2 ''canon.example'' None) = (0, 0, 0, 2) \<and>
   source_rank ex_env ex_db ex_candidates (ex_medium 1 ''mirror.example'' None) = (1, 0, 0, 1) \<and>
   (\<exists>s r m ms. snd (get_preferred_story ex_env ex_db ex_candidates) = Inr s \<and>
      s \<in> set ex_candidates \<and> stories_id s \<in> stories_id ` set ex_candidates \<and>
      sorted_media ex_env ex_db ex_candidates = m # ms \<and> media_id s = m_media_id (row m) \<and>
      r \<in> set (tbl_media ex_db) \<and> m_media_id r = media_id s \<and>
      (\<forall>r' \<in> set (tbl_media ex_db).
         m_media_id r' \<in> media_id ` set ex_candidates \<and> r' \<noteq> r \<longrightarrow>
           source_rank ex_env ex_db ex_candidates r < source_rank ex_env ex_db ex_candidates r'))"
proof -
  have n1: "ex_candidates \<noteq> []" by (simp add: ex_candidates_def)
  have r2: "source_rank ex_env ex_db ex_candidates (ex_medium 2 ''canon.example'' None)
              = (0, 0, 0, 2)"
    by (simp add: source_rank_def ex_db_def ex_env_def ex_candidates_def ex_story_def
        ex_medium_def ex_domain_def)
  have r1: "source_rank ex_env ex_db ex_candidates (ex_medium 1 ''mirror.example'' None)
              = (1, 0, 0, 1)"
    by (simp add: source_rank_def ex_db_def ex_env_def ex_candidates_def ex_story_def
        ex_medium_def ex_domain_def)
  from preferred_story_from_candidates[OF ex_candidates_of_store n1, of ex_env]
    ex_candidates_of_store n1 r1 r2
  show ?thesis by blast
qed

text \<open>The statement of C6 at a story of the example store.\<close>

theorem get_preferred_story_singleton_witness:
  "get_preferred_story ex_env ex_db [ex_story 10 ''mirror.example/a'' 1]
     = (ex_db, Inr (ex_story 10 ''mirror.example/a'' 1))"
  by (rule get_preferred_story_singleton)

subsection \<open>Matching a url\<close>

lemma query_story_match_log [simp]:
  "snd (query_story_match (log_query q d) urls) = snd (query_story_match d urls)"
  by (simp add: query_story_match_def in_plain_medium_def log_query_def)

lemma ignore_redirect_store:
  "fst (ignore_redirect e d url0 r) = d \<or> (\<exists>q. fst (ignore_redirect e d url0 r) = log_query q d)"
  by (auto simp: ignore_redirect_def Let_def split: option.splits)

lemma effective_redirect_store:
  "fst (effective_redirect e d url0 r) = fst (ignore_redirect e d url0 r)"
  by (simp add: effective_redirect_def Let_def split: prod.splits)

lemma effective_redirect_match [simp]:
  "snd (query_story_match (fst (effective_redirect e d url0 r)) urls)
     = snd (query_story_match d urls)"
  using ignore_redirect_store[of e d url0 r] by (auto simp: effective_redirect_store)

lemma get_story_match_no_match:
  assumes "snd (query_story_match d
                  (match_urls e (take MAX_URL_LENGTH url0)
                     (snd (effective_redirect e d url0 r)))) = []"
  shows "snd (get_story_match e d url0 r) = Inl AssertionError"
proof -
  obtain d1 ru where er: "effective_redirect e d url0 r = (d1, ru)"
    by (cases "effective_redirect e d url0 r")
  let ?urls = "match_urls e (take MAX_URL_LENGTH url0) ru"
  obtain d2 stories where q: "query_story_match d1 ?urls = (d2, stories)"
    by (cases "query_story_match d1 ?urls")
  have "snd (query_story_match d1 ?urls) = snd (query_story_match d ?urls)"
    using effective_redirect_match[of e d url0 r ?urls] er by simp
  with assms er q have "stories = []" by simp
  with er q show ?thesis
    by (simp add: get_story_match_def get_preferred_story_def Let_def)
qed

text \<open>
  C1. The docstring of \<^verbatim>\<open>get_story_match\<close> promises the matched story or \<^verbatim>\<open>None\<close>, and
  the claim that a url without a matching story gives an empty result and no error.
  The code passes the rows of its statement to \<^verbatim>\<open>get_preferred_story\<close> whether or not
  there are any, so with no row the assertion of \<^verbatim>\<open>get_preferred_story\<close> fails (the
  lemma above, for every store and url). Here at the example store, where no story
  matches the url: the result is the assertion error, not \<^verbatim>\<open>None\<close>.
\<close>

theorem get_story_match_no_match_fails:
  "snd (query_story_match ex_db
          (match_urls ex_env (take MAX_URL_LENGTH ''nowhere.example/z'')
             (take MAX_URL_LENGTH ''nowhere.example/z''))) = [] \<and>
   snd (get_story_match ex_env ex_db ''nowhere.example/z'' None) = Inl AssertionError \<and>
   snd (get_story_match ex_env ex_db ''nowhere.example/z'' None) \<noteq> Inr None"
proof -
  have er: "snd (effective_redirect ex_env ex_db ''nowhere.example/z'' None)
              = take MAX_URL_LENGTH ''nowhere.example/z''"
    by (simp add: effective_redirect_def ignore_redirect_def Let_def)
  have t: "take MAX_URL_LENGTH ''nowhere.example/z'' = ''nowhere.example/z''"
    by (simp add: MAX_URL_LENGTH_def)
  have q: "snd (query_story_match ex_db
          (match_urls ex_env (take MAX_URL_LENGTH ''nowhere.example/z'')
             (take MAX_URL_LENGTH ''nowhere.example/z''))) = []"
    by (simp add: t query_story_match_def match_urls_def ex_db_def ex_env_def ex_story_def
        Let_def)
  then have "snd (get_story_match ex_env ex_db ''nowhere.example/z'' None) = Inl AssertionError"
    by (intro get_story_match_no_match) (simp add: er)
  with q show ?thesis by simp
qed

lemma most_sentences_log:
  "fst (get_story_with_most_sentences d ss) = d \<or>
   (\<exists>q. fst (get_story_with_most_sentences d ss) = log_query q d)"
  by (cases ss; cases "tl ss")
     (auto simp: get_story_with_most_sentences_def query_story_sentences_def
        split: option.splits list.splits)

lemma query_log_log_query [simp]: "query_log (log_query q d) = query_log d @ [q]"
  by (simp add: log_query_def)

lemma preferred_story_log:
  "set (query_log d) \<subseteq> set (query_log (fst (get_preferred_story e d ss)))"
proof (cases ss)
  case Nil
  then show ?thesis by (simp add: get_preferred_story_def)
next
  case (Cons a rest)
  show ?thesis
  proof (cases rest)
    case Nil
    with Cons show ?thesis by (simp add: get_preferred_story_def)
  next
    case (Cons b rest')
    let ?d1 = "fst (query_media d (map media_id ss))"
    have d1: "?d1 = log_query (Q_media (map media_id ss)) d" by (simp add: query_media_def)
    show ?thesis
    proof (cases "sorted_media e d ss")
      case Nil
      with Cons \<open>ss = a # rest\<close> show ?thesis
        by (auto simp: get_preferred_story_def query_media_def)
    next
      case (Cons m ms)
      have g: "get_preferred_story e d ss = get_story_with_most_sentences ?d1 (rm_stories m)"
        using Cons \<open>rest = b # rest'\<close> \<open>ss = a # rest\<close>
        by (simp add: get_preferred_story_def)
      from most_sentences_log[of ?d1 "rm_stories m"] show ?thesis
        by (auto simp: g d1)
    qed
  qed
qed

lemma effective_redirect_snd:
  "snd (effective_redirect e d url0 redirect_url) =
     (if snd (ignore_redirect e d url0 redirect_url) then []
      else case redirect_url of
             None \<Rightarrow> take MAX_URL_LENGTH url0
           | Some r \<Rightarrow> take MAX_URL_LENGTH r)"
  by (simp add: effective_redirect_def Let_def split: prod.splits option.splits)

text \<open>
  C2, as the code has it. The redirect that \<^verbatim>\<open>get_story_match\<close> builds its list of urls
  from is the empty string when \<^verbatim>\<open>ignore_redirect\<close> is true; otherwise it is the
  truncated url when there is no redirect url, and the truncated redirect url when there
  is one. The list built from it is the parameter of the statement the function runs.
\<close>

theorem effective_redirect_value:
  "snd (effective_redirect e d url0 redirect_url) =
     (if snd (ignore_redirect e d url0 redirect_url) then []
      else case redirect_url of
             None \<Rightarrow> take MAX_URL_LENGTH url0
           | Some r \<Rightarrow> take MAX_URL_LENGTH r) \<and>
   Q_story_match (match_urls e (take MAX_URL_LENGTH url0)
                    (snd (effective_redirect e d url0 redirect_url)))
     \<in> set (query_log (fst (get_story_match e d url0 redirect_url)))"
proof
  show "snd (effective_redirect e d url0 redirect_url) =
     (if snd (ignore_redirect e d url0 redirect_url) then []
      else case redirect_url of
             None \<Rightarrow> take MAX_URL_LENGTH url0
           | Some r \<Rightarrow> take MAX_URL_LENGTH r)"
    by (rule effective_redirect_snd)
next
  obtain d1 ru where er: "effective_redirect e d url0 redirect_url = (d1, ru)"
    by (cases "effective_redirect e d url0 redirect_url")
  let ?urls = "match_urls e (take MAX_URL_LENGTH url0) ru"
  obtain d2 stories where q: "query_story_match d1 ?urls = (d2, stories)"
    by (cases "query_story_match d1 ?urls")
  then have d2: "d2 = log_query (Q_story_match ?urls) d1"
    by (simp add: query_story_match_def)
  have "fst (get_story_match e d url0 redirect_url) = fst (get_preferred_story e d2 stories)"
    using er q by (simp add: get_story_match_def Let_def split: prod.splits sum.splits)
  moreover have "Q_story_match ?urls \<in> set (query_log d2)" by (simp add: d2)
  ultimately show "Q_story_match (match_urls e (take MAX_URL_LENGTH url0)
                    (snd (effective_redirect e d url0 redirect_url)))
     \<in> set (query_log (fst (get_story_match e d url0 redirect_url)))"
    using preferred_story_log[of d2 e stories] er by auto
qed

text \<open>
  C2 as stated fails: the redirect of \<^verbatim>\<open>old.example/a\<close> to a url whose medium is in
  \<^verbatim>\<open>topic_ignore_redirects\<close> is ignored, and the redirect used is then the empty
  string, not the truncated url.
\<close>

theorem effective_redirect_counterexample:
  "snd (ignore_redirect ex_env ex_db ''old.example/a'' (Some ''parked.example/landing'')) \<and>
   snd (effective_redirect ex_env ex_db ''old.example/a'' (Some ''parked.example/landing'')) = [] \<and>
   take MAX_URL_LENGTH ''old.example/a'' = ''old.example/a'' \<and>
   snd (effective_redirect ex_env ex_db ''old.example/a'' (Some ''parked.example/landing''))
     \<noteq> take MAX_URL_LENGTH ''old.example/a''"
proof -
  have i: "snd (ignore_redirect ex_env ex_db ''old.example/a'' (Some ''parked.example/landing''))"
    by (simp add: ignore_redirect_def Let_def ex_env_def ex_db_def ex_domain_def)
  then have e: "snd (effective_redirect ex_env ex_db ''old.example/a''
                       (Some ''parked.example/landing'')) = []"
    by (simp add: effective_redirect_snd)
  have t: "take MAX_URL_LENGTH ''old.example/a'' = ''old.example/a''"
    by (simp add: MAX_URL_LENGTH_def)
  from i e t show ?thesis by simp
qed

text \<open>The three cases of C2 at the example store.\<close>

theorem effective_redirect_value_witness:
  "snd (ignore_redirect ex_env ex_db ''old.example/a'' (Some ''parked.example/landing'')) \<and>
   snd (effective_redirect ex_env ex_db ''old.example/a'' (Some ''parked.example/landing'')) = [] \<and>
   \<not> snd (ignore_redirect ex_env ex_db ''old.example/a'' None) \<and>
   snd (effective_redirect ex_env ex_db ''old.example/a'' None) = ''old.example/a'' \<and>
   \<not> snd (ignore_redirect ex_env ex_db ''old.example/a'' (Some ''canon.example/a'')) \<and>
   snd (effective_redirect ex_env ex_db ''old.example/a'' (Some ''canon.example/a''))
     = ''canon.example/a'' \<and>
   Q_story_match [''old.example/a'', ''canon.example/a'']
     \<in> set (query_log (fst (get_story_match ex_env ex_db ''old.example/a''
                                (Some ''canon.example/a''))))"
proof -
  have i1: "snd (ignore_redirect ex_env ex_db ''old.example/a'' (Some ''parked.example/landing''))"
    by (simp add: ignore_redirect_def Let_def ex_env_def ex_db_def ex_domain_def)
  have i2: "\<not> snd (ignore_redirect ex_env ex_db ''old.example/a'' None)"
    by (simp add: ignore_redirect_def)
  have i3: "\<not> snd (ignore_redirect ex_env ex_db ''old.example/a'' (Some ''canon.example/a''))"
    by (simp add: ignore_redirect_def Let_def ex_env_def ex_db_def ex_domain_def)
  have t: "take MAX_URL_LENGTH ''old.example/a'' = ''old.example/a''"
    "take MAX_URL_LENGTH ''canon.example/a'' = ''canon.example/a''"
    by (simp_all add: MAX_URL_LENGTH_def)
  have m: "match_urls ex_env ''old.example/a'' ''canon.example/a''
             = [''old.example/a'', ''canon.example/a'']"
    by (simp add: match_urls_def ex_env_def Let_def)
  from effective_redirect_value[of ex_env ex_db "''old.example/a''" "Some ''parked.example/landing''"]
    i1
  have a: "snd (effective_redirect ex_env ex_db ''old.example/a''
                  (Some ''parked.example/landing'')) = []"
    by simp
  from effective_redirect_value[of ex_env ex_db "''old.example/a''" None] i2
  have b: "snd (effective_redirect ex_env ex_db ''old.example/a'' None) = ''old.example/a''"
    by (simp add: t)
  note v = effective_redirect_value[of ex_env ex_db "''old.example/a''" "Some ''canon.example/a''"]
  from v i3
  have c: "snd (effective_redirect ex_env ex_db ''old.example/a'' (Some ''canon.example/a''))
             = ''canon.example/a''"
    by (simp add: t)
  from v have "Q_story_match [''old.example/a'', ''canon.example/a'']
     \<in> set (query_log (fst (get_story_match ex_env ex_db ''old.example/a''
                                (Some ''canon.example/a''))))"
    unfolding c t m by (rule conjunct2)
  with i1 i2 i3 a b c show ?thesis by simp
qed

subsection \<open>A new story and its tags\<close>

lemma find_or_create_tag_set_result:
  assumes "find_or_create_tag_set d n = (d1, ts)"
  shows "ts \<in> set (tbl_tag_sets d1) \<and> ts_name ts = n \<and> tbl_tags d1 = tbl_tags d \<and>
         tbl_stories_tags_map d1 = tbl_stories_tags_map d"
  using assms
  by (auto simp: find_or_create_tag_set_def Let_def find_Some_iff split: option.splits)

lemma find_or_create_tag_result:
  assumes "find_or_create_tag d n i = (d1, t)"
  shows "t \<in> set (tbl_tags d1) \<and> tag_name t = n \<and> tag_tag_sets_id t = i \<and>
         tbl_tag_sets d1 = tbl_tag_sets d \<and>
         tbl_stories_tags_map d1 = tbl_stories_tags_map d"
  using assms
  by (auto simp: find_or_create_tag_def Let_def find_Some_iff split: option.splits)

lemma assign_date_guess_tag_attaches:
  assumes "date_guess_tag_names e dg fb = (tsn, tn)"
  shows "tag_attached d (assign_date_guess_tag e d s dg fb) s tsn tn"
proof -
  obtain d1 ts where a: "find_or_create_tag_set d tsn = (d1, ts)"
    by (cases "find_or_create_tag_set d tsn")
  obtain d2 t where b: "find_or_create_tag d1 tn (tag_sets_id ts) = (d2, t)"
    by (cases "find_or_create_tag d1 tn (tag_sets_id ts)")
  have r: "assign_date_guess_tag e d s dg fb
             = create_stories_tags_map d2 (stories_id s) (tags_id t)"
    using assms a b by (simp add: assign_date_guess_tag_def)
  note ra = find_or_create_tag_set_result[OF a]
  note rb = find_or_create_tag_result[OF b]
  from ra rb have "ts \<in> set (tbl_tag_sets d2)" "t \<in> set (tbl_tags d2)" by simp_all
  with ra rb show ?thesis
    unfolding r tag_attached_def create_stories_tags_map_def
    by (intro bexI[of _ ts] bexI[of _ t]) simp_all
qed

lemma prefix_tag_not_url:
  "prefix ''Extracted from tag'' gm \<Longrightarrow> \<not> prefix ''Extracted from url'' gm"
  by (auto simp: prefix_def)

text \<open>
  C7. \<^verbatim>\<open>assign_date_guess_tag\<close> attaches to the story one tag, by the table: for a
  date found with a method that starts with \<^verbatim>\<open>Extracted from url\<close>, tag
  \<^verbatim>\<open>guess_by_url\<close> of tag set \<^verbatim>\<open>date_guess_method\<close>; with a method that starts with
  \<^verbatim>\<open>Extracted from tag\<close>, tag \<^verbatim>\<open>guess_by_tag_\<close> followed by the name of the html tag
  the method holds, or by \<^verbatim>\<open>unknown\<close> when it holds none, of the same tag set; with any
  other method, tag \<^verbatim>\<open>guess_by_unknown\<close> of the same tag set; for no date found and a
  fallback date, tag \<^verbatim>\<open>fallback_date\<close> of the same tag set; for no date found and no
  fallback date, tag \<^verbatim>\<open>date_invalid\<close> of tag set \<^verbatim>\<open>date_invalid\<close>.
\<close>

theorem assign_date_guess_tag_table:
  "(prefix ''Extracted from url'' gm \<longrightarrow>
      tag_attached d (assign_date_guess_tag e d s (Found dt gm) fb) s
        ''date_guess_method'' ''guess_by_url'') \<and>
   (prefix ''Extracted from tag'' gm \<longrightarrow>
      (\<forall>h. search_html_tag (word_char e) gm = Some h \<longrightarrow>
         tag_attached d (assign_date_guess_tag e d s (Found dt gm) fb) s
           ''date_guess_method'' (''guess_by_tag_'' @ h)) \<and>
      (search_html_tag (word_char e) gm = None \<longrightarrow>
         tag_attached d (assign_date_guess_tag e d s (Found dt gm) fb) s
           ''date_guess_method'' ''guess_by_tag_unknown'')) \<and>
   (\<not> prefix ''Extracted from url'' gm \<and> \<not> prefix ''Extracted from tag'' gm \<longrightarrow>
      tag_attached d (assign_date_guess_tag e d s (Found dt gm) fb) s
        ''date_guess_method'' ''guess_by_unknown'') \<and>
   tag_attached d (assign_date_guess_tag e d s NotFound (Some f)) s
     ''date_guess_method'' ''fallback_date'' \<and>
   tag_attached d (assign_date_guess_tag e d s NotFound None) s
     ''date_invalid'' ''date_invalid''"
proof (intro conjI impI allI)
  assume "prefix ''Extracted from url'' gm"
  then have "date_guess_tag_names e (Found dt gm) fb = (''date_guess_method'', ''guess_by_url'')"
    by (simp add: date_guess_tag_names_def)
  then show "tag_attached d (assign_date_guess_tag e d s (Found dt gm) fb) s
        ''date_guess_method'' ''guess_by_url''"
    by (rule assign_date_guess_tag_attaches)
next
  fix h
  assume p: "prefix ''Extracted from tag'' gm" and h: "search_html_tag (word_char e) gm = Some h"
  from p have "\<not> prefix ''Extracted from url'' gm" by (rule prefix_tag_not_url)
  with p h have "date_guess_tag_names e (Found dt gm) fb
                   = (''date_guess_method'', ''guess_by_tag_'' @ h)"
    by (simp add: date_guess_tag_names_def)
  then show "tag_attached d (assign_date_guess_tag e d s (Found dt gm) fb) s
           ''date_guess_method'' (''guess_by_tag_'' @ h)"
    by (rule assign_date_guess_tag_attaches)
next
  assume p: "prefix ''Extracted from tag'' gm" and h: "search_html_tag (word_char e) gm = None"
  from p have "\<not> prefix ''Extracted from url'' gm" by (rule prefix_tag_not_url)
  with p h have "date_guess_tag_names e (Found dt gm) fb
                   = (''date_guess_method'', ''guess_by_tag_unknown'')"
    by (simp add: date_guess_tag_names_def)
  then show "tag_attached d (assign_date_guess_tag e d s (Found dt gm) fb) s
           ''date_guess_method'' ''guess_by_tag_unknown''"
    by (rule assign_date_guess_tag_attaches)
next
  assume "\<not> prefix ''Extracted from url'' gm \<and> \<not> prefix ''Extracted from tag'' gm"
  then have "date_guess_tag_names e (Found dt gm) fb
               = (''date_guess_method'', ''guess_by_unknown'')"
    by (simp add: date_guess_tag_names_def)
  then show "tag_attached d (assign_date_guess_tag e d s (Found dt gm) fb) s
        ''date_guess_method'' ''guess_by_unknown''"
    by (rule assign_date_guess_tag_attaches)
next
  have "date_guess_tag_names e NotFound (Some f) = (''date_guess_method'', ''fallback_date'')"
    by (simp add: date_guess_tag_names_def)
  then show "tag_attached d (assign_date_guess_tag e d s NotFound (Some f)) s
     ''date_guess_method'' ''fallback_date''"
    by (rule assign_date_guess_tag_attaches)
next
  have "date_guess_tag_names e NotFound None = (''date_invalid'', ''date_invalid'')"
    by (simp add: date_guess_tag_names_def)
  then show "tag_attached d (assign_date_guess_tag e d s NotFound None) s
     ''date_invalid'' ''date_invalid''"
    by (rule assign_date_guess_tag_attaches)
qed

text \<open>The rows of the table of C7 at the example store, the html tag being \<^verbatim>\<open>h1\<close>.\<close>

theorem assign_date_guess_tag_table_witness:
  "tag_attached ex_db
     (assign_date_guess_tag ex_env ex_db (ex_story 10 ''mirror.example/a'' 1)
        (Found ''2019-05-04'' ''Extracted from url'') None)
     (ex_story 10 ''mirror.example/a'' 1) ''date_guess_method'' ''guess_by_url'' \<and>
   search_html_tag (word_char ex_env) ''Extracted from tag <h1>'' = Some ''h1'' \<and>
   tag_attached ex_db
     (assign_date_guess_tag ex_env ex_db (ex_story 10 ''mirror.example/a'' 1)
        (Found ''2019-05-04'' ''Extracted from tag <h1>'') None)
     (ex_story 10 ''mirror.example/a'' 1) ''date_guess_method'' ''guess_by_tag_h1'' \<and>
   search_html_tag (word_char ex_env) ''Extracted from tag'' = None \<and>
   tag_attached ex_db
     (assign_date_guess_tag ex_env ex_db (ex_story 10 ''mirror.example/a'' 1)
        (Found ''2019-05-04'' ''Extracted from tag'') None)
     (ex_story 10 ''mirror.example/a'' 1) ''date_guess_method'' ''guess_by_tag_unknown'' \<and>
   tag_attached ex_db
     (assign_date_guess_tag ex_env ex_db (ex_story 10 ''mirror.example/a'' 1)
        (Found ''2019-05-04'' ''Guessed from text'') None)
     (ex_story 10 ''mirror.example/a'' 1) ''date_guess_method'' ''guess_by_unknown'' \<and>
   tag_attached ex_db
     (assign_date_guess_tag ex_env ex_db (ex_story 10 ''mirror.example/a'' 1)
        NotFound (Some ''2020-01-01''))
     (ex_story 10 ''mirror.example/a'' 1) ''date_guess_method'' ''fallback_date'' \<and>
   tag_attached ex_db
     (assign_date_guess_tag ex_env ex_db (ex_story 10 ''mirror.example/a'' 1) NotFound None)
     (ex_story 10 ''mirror.example/a'' 1) ''date_invalid'' ''date_invalid''"
proof -
  let ?s = "ex_story 10 ''mirror.example/a'' 1"
  have h1: "search_html_tag (word_char ex_env) ''Extracted from tag <h1>'' = Some ''h1''"
    by (simp add: ex_env_def)
  have h2: "search_html_tag (word_char ex_env) ''Extracted from tag'' = None"
    by (simp add: ex_env_def)
  note t1 = assign_date_guess_tag_table[of "''Extracted from url''" ex_db ex_env ?s
      "''2019-05-04''" None]
  note t2 = assign_date_guess_tag_table[of "''Extracted from tag <h1>''" ex_db ex_env ?s
      "''2019-05-04''" None]
  note t3 = assign_date_guess_tag_table[of "''Extracted from tag''" ex_db ex_env ?s
      "''2019-05-04''" None]
  note t4 = assign_date_guess_tag_table[of "''Guessed from text''" ex_db ex_env ?s
      "''2019-05-04''" None "''2020-01-01''"]
  from t1 have a: "tag_attached ex_db
     (assign_date_guess_tag ex_env ex_db ?s (Found ''2019-05-04'' ''Extracted from url'') None)
     ?s ''date_guess_method'' ''guess_by_url''"
    by simp
  from t2 h1 have b: "tag_attached ex_db
     (assign_date_guess_tag ex_env ex_db ?s (Found ''2019-05-04'' ''Extracted from tag <h1>'') None)
     ?s ''date_guess_method'' ''guess_by_tag_h1''"
    by simp
  from t3 h2 have c: "tag_attached ex_db
     (assign_date_guess_tag ex_env ex_db ?s (Found ''2019-05-04'' ''Extracted from tag'') None)
     ?s ''date_guess_method'' ''guess_by_tag_unknown''"
    by simp
  from t4 have d: "tag_attached ex_db
     (assign_date_guess_tag ex_env ex_db ?s (Found ''2019-05-04'' ''Guessed from text'') None)
     ?s ''date_guess_method'' ''guess_by_unknown''"
    by simp
  from t4 have f: "tag_attached ex_db
     (assign_date_guess_tag ex_env ex_db ?s NotFound (Some ''2020-01-01''))
     ?s ''date_guess_method'' ''fallback_date''"
    by (rule_tac conjunct1[OF conjunct2[OF conjunct2[OF conjunct2]]])
  from t4 have g: "tag_attached ex_db
     (assign_date_guess_tag ex_env ex_db ?s NotFound None) ?s ''date_invalid'' ''date_invalid''"
    by (rule_tac conjunct2[OF conjunct2[OF conjunct2[OF conjunct2]]])
  from a h1 b h2 c d f g show ?thesis by simp
qed

lemma create_story_fields:
  "url (snd (create_story d f)) = url f"
  "guid (snd (create_story d f)) = guid f"
  "title (snd (create_story d f)) = title f"
  "publish_date (snd (create_story d f)) = publish_date f"
  by (simp_all add: create_story_def Let_def)

lemma add_new_story_created:
  "\<exists>d3 m. snd (add_new_story e d url0 content fb) =
     snd (create_story d3
       \<lparr> url = strip_null (take MAX_URL_LENGTH url0),
         guid = strip_null (take MAX_URL_LENGTH url0),
         media_id = m,
         collect_date = now_collect e,
         title = strip_null (html_title e content (take MAX_URL_LENGTH url0) MAX_TITLE_LENGTH),
         description = [],
         publish_date =
           (case (if found (guess_date e (take MAX_URL_LENGTH url0) content)
                  then Some (date (guess_date e (take MAX_URL_LENGTH url0) content))
                  else fb) of
              Some p \<Rightarrow> p
            | None \<Rightarrow> now_publish e) \<rparr>)"
proof -
  let ?u = "take MAX_URL_LENGTH url0"
  obtain d1 medium0 where a: "guess_medium e d ?u = (d1, medium0)"
    by (cases "guess_medium e d ?u")
  obtain d2 feed0 where b: "get_spider_feed d1 medium0 = (d2, feed0)"
    by (cases "get_spider_feed d1 medium0")
  obtain d3 spidered_tag where c: "get_spidered_tag e d2 = (d3, spidered_tag)"
    by (cases "get_spidered_tag e d2")
  let ?f = "\<lparr> url = strip_null ?u, guid = strip_null ?u, media_id = m_media_id medium0,
         collect_date = now_collect e,
         title = strip_null (html_title e content ?u MAX_TITLE_LENGTH),
         description = [],
         publish_date =
           (case (if found (guess_date e ?u content)
                  then Some (date (guess_date e ?u content))
                  else fb) of
              Some p \<Rightarrow> p
            | None \<Rightarrow> now_publish e) \<rparr>"
  obtain d4 story1 where f: "create_story d3 ?f = (d4, story1)"
    by (cases "create_story d3 ?f")
  have "snd (add_new_story e d url0 content fb) = story1"
    using a b c f by (simp add: add_new_story_def Let_def split: prod.splits)
  with f have "snd (add_new_story e d url0 content fb) = snd (create_story d3 ?f)"
    by simp
  then show ?thesis by blast
qed

lemma strip_null_length: "length (strip_null s) \<le> length s"
  by (simp add: strip_null_def)

lemma strip_null_free: "CHR 0x00 \<notin> set (strip_null s)"
  by (simp add: strip_null_def)

text \<open>
  C8. The \<^verbatim>\<open>publish_date\<close> of the story \<^verbatim>\<open>add_new_story\<close> returns is the date of the
  date guesser when it found one; otherwise the fallback date when there is one;
  otherwise the reading of the clock.
\<close>

theorem add_new_story_publish_date:
  "(\<forall>dt gm. guess_date e (take MAX_URL_LENGTH url0) content = Found dt gm \<longrightarrow>
      publish_date (snd (add_new_story e d url0 content fb)) = dt) \<and>
   (guess_date e (take MAX_URL_LENGTH url0) content = NotFound \<longrightarrow>
      (\<forall>f. fb = Some f \<longrightarrow> publish_date (snd (add_new_story e d url0 content fb)) = f) \<and>
      (fb = None \<longrightarrow> publish_date (snd (add_new_story e d url0 content fb)) = now_publish e))"
proof -
  from add_new_story_created[of e d url0 content fb] obtain d3 m where
    s: "snd (add_new_story e d url0 content fb) =
     snd (create_story d3
       \<lparr> url = strip_null (take MAX_URL_LENGTH url0),
         guid = strip_null (take MAX_URL_LENGTH url0),
         media_id = m,
         collect_date = now_collect e,
         title = strip_null (html_title e content (take MAX_URL_LENGTH url0) MAX_TITLE_LENGTH),
         description = [],
         publish_date =
           (case (if found (guess_date e (take MAX_URL_LENGTH url0) content)
                  then Some (date (guess_date e (take MAX_URL_LENGTH url0) content))
                  else fb) of
              Some p \<Rightarrow> p
            | None \<Rightarrow> now_publish e) \<rparr>)"
    by blast
  show ?thesis
    unfolding s create_story_fields by auto
qed

lemma get_spider_feed_stories [simp]:
  "tbl_stories (fst (get_spider_feed d medium0)) = tbl_stories d"
  by (simp add: get_spider_feed_def query_spider_feed_def create_feed_def Let_def
      split: option.splits)

lemma find_or_create_tag_set_stories [simp]:
  "tbl_stories (fst (find_or_create_tag_set d n)) = tbl_stories d"
  by (simp add: find_or_create_tag_set_def Let_def split: option.splits)

lemma find_or_create_tag_stories [simp]:
  "tbl_stories (fst (find_or_create_tag d n i)) = tbl_stories d"
  by (simp add: find_or_create_tag_def Let_def split: option.splits)

lemma create_stories_tags_map_stories [simp]:
  "tbl_stories (create_stories_tags_map d i j) = tbl_stories d"
  by (simp add: create_stories_tags_map_def)

lemma create_feeds_stories_map_stories [simp]:
  "tbl_stories (create_feeds_stories_map d i j) = tbl_stories d"
  by (simp add: create_feeds_stories_map_def)

lemma assign_date_guess_tag_stories [simp]:
  "tbl_stories (assign_date_guess_tag e d s dg fb) = tbl_stories d"
proof -
  obtain tsn tn where n: "date_guess_tag_names e dg fb = (tsn, tn)"
    by (cases "date_guess_tag_names e dg fb")
  obtain d1 ts where a: "find_or_create_tag_set d tsn = (d1, ts)"
    by (cases "find_or_create_tag_set d tsn")
  obtain d2 t where b: "find_or_create_tag d1 tn (tag_sets_id ts) = (d2, t)"
    by (cases "find_or_create_tag d1 tn (tag_sets_id ts)")
  have "tbl_stories d1 = tbl_stories d"
    using find_or_create_tag_set_stories[of d tsn] a by simp
  moreover have "tbl_stories d2 = tbl_stories d1"
    using find_or_create_tag_stories[of d1 tn "tag_sets_id ts"] b by simp
  ultimately show ?thesis
    using n a b by (simp add: assign_date_guess_tag_def)
qed

lemma create_download_stories [simp]:
  "tbl_stories (fst (create_download_for_new_story e d s f)) = tbl_stories d"
  by (simp add: create_download_for_new_story_def Let_def)

lemma create_story_appends:
  "tbl_stories (fst (create_story d f)) = tbl_stories d @ [snd (create_story d f)]"
  by (simp add: create_story_def Let_def)

lemma add_new_story_stores:
  assumes k: "keeps_stories e"
  shows "tbl_stories (fst (add_new_story e d url0 content fb))
           = tbl_stories d @ [snd (add_new_story e d url0 content fb)]"
proof -
  let ?u = "take MAX_URL_LENGTH url0"
  obtain d1 medium0 where a: "guess_medium e d ?u = (d1, medium0)"
    by (cases "guess_medium e d ?u")
  obtain d2 feed0 where b: "get_spider_feed d1 medium0 = (d2, feed0)"
    by (cases "get_spider_feed d1 medium0")
  obtain d3 spidered_tag where c: "get_spidered_tag e d2 = (d3, spidered_tag)"
    by (cases "get_spidered_tag e d2")
  let ?dg = "guess_date e ?u content"
  let ?f = "\<lparr> url = strip_null ?u, guid = strip_null ?u, media_id = m_media_id medium0,
         collect_date = now_collect e,
         title = strip_null (html_title e content ?u MAX_TITLE_LENGTH),
         description = [],
         publish_date =
           (case (if found ?dg then Some (date ?dg) else fb) of
              Some p \<Rightarrow> p
            | None \<Rightarrow> now_publish e) \<rparr>"
  obtain d4 story1 where f: "create_story d3 ?f = (d4, story1)"
    by (cases "create_story d3 ?f")
  let ?d5 = "create_stories_tags_map d4 (stories_id story1) (tags_id spidered_tag)"
  let ?d6 = "assign_date_guess_tag e ?d5 story1 ?dg fb"
  let ?d7 = "create_feeds_stories_map ?d6 (stories_id story1) (feeds_id feed0)"
  obtain d8 download0 where g: "create_download_for_new_story e ?d7 story1 feed0 = (d8, download0)"
    by (cases "create_download_for_new_story e ?d7 story1 feed0")
  obtain d9 download1 where h: "store_content e d8 download0 content = (d9, download1)"
    by (cases "store_content e d8 download0 content")
  have r: "add_new_story e d url0 content fb = (d9, story1)"
    using a b c f g h by (simp add: add_new_story_def Let_def)
  have k1: "tbl_stories (fst (guess_medium e x u)) = tbl_stories x" for x u
    using k by (simp add: keeps_stories_def)
  have k2: "tbl_stories (fst (get_spidered_tag e x)) = tbl_stories x" for x
    using k by (simp add: keeps_stories_def)
  have k3: "tbl_stories (fst (store_content e x dl ct)) = tbl_stories x" for x dl ct
    using k by (simp add: keeps_stories_def)
  have s1: "tbl_stories d1 = tbl_stories d"
    using k1[of d ?u] a by simp
  have s2: "tbl_stories d2 = tbl_stories d1"
    using get_spider_feed_stories[of d1 medium0] b by simp
  have s3: "tbl_stories d3 = tbl_stories d2"
    using k2[of d2] c by simp
  have s4: "tbl_stories d4 = tbl_stories d3 @ [story1]"
    using create_story_appends[of d3 ?f] f by simp
  have s8: "tbl_stories d8 = tbl_stories ?d7"
    using create_download_stories[of e ?d7 story1 feed0] g by simp
  have s9: "tbl_stories d9 = tbl_stories d8"
    using k3[of d8 download0 content] h by simp
  show ?thesis
    by (simp add: r s9 s8 s4 s3 s2 s1)
qed

text \<open>
  C9. When the collaborators leave table \<^verbatim>\<open>stories\<close> alone, the table after
  \<^verbatim>\<open>add_new_story\<close> is the table before with one more row, and this row is the story
  the function returns. The url and guid of that story have at most 1024 characters,
  and its url, guid and title hold no null character, whatever the collaborators do.
\<close>

theorem add_new_story_url_guid_title:
  "(keeps_stories e \<longrightarrow>
      tbl_stories (fst (add_new_story e d url0 content fb))
        = tbl_stories d @ [snd (add_new_story e d url0 content fb)]) \<and>
   length (url (snd (add_new_story e d url0 content fb))) \<le> 1024 \<and>
   length (guid (snd (add_new_story e d url0 content fb))) \<le> 1024 \<and>
   CHR 0x00 \<notin> set (url (snd (add_new_story e d url0 content fb))) \<and>
   CHR 0x00 \<notin> set (guid (snd (add_new_story e d url0 content fb))) \<and>
   CHR 0x00 \<notin> set (title (snd (add_new_story e d url0 content fb)))"
proof -
  from add_new_story_created[of e d url0 content fb] obtain d3 m where
    s: "snd (add_new_story e d url0 content fb) =
     snd (create_story d3
       \<lparr> url = strip_null (take MAX_URL_LENGTH url0),
         guid = strip_null (take MAX_URL_LENGTH url0),
         media_id = m,
         collect_date = now_collect e,
         title = strip_null (html_title e content (take MAX_URL_LENGTH url0) MAX_TITLE_LENGTH),
         description = [],
         publish_date =
           (case (if found (guess_date e (take MAX_URL_LENGTH url0) content)
                  then Some (date (guess_date e (take MAX_URL_LENGTH url0) content))
                  else fb) of
              Some p \<Rightarrow> p
            | None \<Rightarrow> now_publish e) \<rparr>)"
    by blast
  have l: "length (strip_null (take MAX_URL_LENGTH url0)) \<le> 1024"
    using strip_null_length[of "take MAX_URL_LENGTH url0"] by (simp add: MAX_URL_LENGTH_def)
  have b: "length (url (snd (add_new_story e d url0 content fb))) \<le> 1024 \<and>
   length (guid (snd (add_new_story e d url0 content fb))) \<le> 1024 \<and>
   CHR 0x00 \<notin> set (url (snd (add_new_story e d url0 content fb))) \<and>
   CHR 0x00 \<notin> set (guid (snd (add_new_story e d url0 content fb))) \<and>
   CHR 0x00 \<notin> set (title (snd (add_new_story e d url0 content fb)))"
    using l unfolding s create_story_fields by (simp add: strip_null_free)
  have "keeps_stories e \<longrightarrow>
      tbl_stories (fst (add_new_story e d url0 content fb))
        = tbl_stories d @ [snd (add_new_story e d url0 content fb)]"
    using add_new_story_stores by blast
  with b show ?thesis by blast
qed

text \<open>The three cases of C8 at the example store.\<close>

theorem add_new_story_publish_date_witness:
  "guess_date ex_env (take MAX_URL_LENGTH ''fresh.example/n'') ''hello''
     = Found ''2019-05-04'' ''Extracted from url'' \<and>
   publish_date (snd (add_new_story ex_env ex_db ''fresh.example/n'' ''hello'' None))
     = ''2019-05-04'' \<and>
   guess_date ex_env (take MAX_URL_LENGTH ''fresh.example/n'') [] = NotFound \<and>
   publish_date (snd (add_new_story ex_env ex_db ''fresh.example/n'' [] (Some ''2020-01-01'')))
     = ''2020-01-01'' \<and>
   publish_date (snd (add_new_story ex_env ex_db ''fresh.example/n'' [] None))
     = now_publish ex_env"
proof -
  have g1: "guess_date ex_env (take MAX_URL_LENGTH ''fresh.example/n'') ''hello''
     = Found ''2019-05-04'' ''Extracted from url''"
    by (simp add: ex_env_def)
  have g2: "guess_date ex_env (take MAX_URL_LENGTH ''fresh.example/n'') [] = NotFound"
    by (simp add: ex_env_def)
  from add_new_story_publish_date[of ex_env "''fresh.example/n''" "''hello''" ex_db None] g1
  have a: "publish_date (snd (add_new_story ex_env ex_db ''fresh.example/n'' ''hello'' None))
     = ''2019-05-04''"
    by blast
  from add_new_story_publish_date[of ex_env "''fresh.example/n''" "[]" ex_db
      "Some ''2020-01-01''"] g2
  have b: "publish_date (snd (add_new_story ex_env ex_db ''fresh.example/n'' []
             (Some ''2020-01-01''))) = ''2020-01-01''"
    by blast
  from add_new_story_publish_date[of ex_env "''fresh.example/n''" "[]" ex_db None] g2
  have c: "publish_date (snd (add_new_story ex_env ex_db ''fresh.example/n'' [] None))
     = now_publish ex_env"
    by blast
  from g1 a g2 b c show ?thesis by simp
qed

lemma ex_env_keeps_stories: "keeps_stories ex_env"
  by (simp add: keeps_stories_def ex_env_def)

text \<open>
  C9 for a url of 2001 characters that starts with a null character, and a content
  whose title holds one, with the collaborators of the example.
\<close>

theorem add_new_story_url_guid_title_witness:
  "keeps_stories ex_env \<and>
   1024 < length (CHR 0x00 # replicate 2000 (CHR ''a'')) \<and>
   tbl_stories (fst (add_new_story ex_env ex_db (CHR 0x00 # replicate 2000 (CHR ''a''))
                       [CHR ''t'', CHR 0x00] None))
     = tbl_stories ex_db @ [snd (add_new_story ex_env ex_db
                                   (CHR 0x00 # replicate 2000 (CHR ''a''))
                                   [CHR ''t'', CHR 0x00] None)] \<and>
   length (url (snd (add_new_story ex_env ex_db (CHR 0x00 # replicate 2000 (CHR ''a''))
                       [CHR ''t'', CHR 0x00] None))) \<le> 1024 \<and>
   length (guid (snd (add_new_story ex_env ex_db (CHR 0x00 # replicate 2000 (CHR ''a''))
                        [CHR ''t'', CHR 0x00] None))) \<le> 1024 \<and>
   CHR 0x00 \<notin> set (url (snd (add_new_story ex_env ex_db
                                  (CHR 0x00 # replicate 2000 (CHR ''a''))
                                  [CHR ''t'', CHR 0x00] None))) \<and>
   CHR 0x00 \<notin> set (guid (snd (add_new_story ex_env ex_db
                                   (CHR 0x00 # replicate 2000 (CHR ''a''))
                                   [CHR ''t'', CHR 0x00] None))) \<and>
   CHR 0x00 \<notin> set (title (snd (add_new_story ex_env ex_db
                                    (CHR 0x00 # replicate 2000 (CHR ''a''))
                                    [CHR ''t'', CHR 0x00] None)))"
  using add_new_story_url_guid_title[of ex_env ex_db "CHR 0x00 # replicate 2000 (CHR ''a'')"
      "[CHR ''t'', CHR 0x00]" None] ex_env_keeps_stories
  by simp

lemma ex_add_new_story:
  "url (snd (add_new_story ex_env ex_db [CHR ''f'', CHR 0x00, CHR ''/'', CHR ''n'']
               [CHR ''t'', CHR 0x00] None)) = ''f/n'' \<and>
   title (snd (add_new_story ex_env ex_db [CHR ''f'', CHR 0x00, CHR ''/'', CHR ''n'']
               [CHR ''t'', CHR 0x00] None)) = ''t''"
  by (simp add: add_new_story_def Let_def ex_env_def create_story_def strip_null_def
      MAX_URL_LENGTH_def MAX_TITLE_LENGTH_def get_spider_feed_def query_spider_feed_def
      create_feed_def split: prod.splits option.splits)

end
